theory Spec2Isabelle
  imports Complex_Main
begin

section \<open>Data model (types file and store/useImageStore.ts)\<close>

text \<open>
  MIME types and ids are JavaScript strings over ASCII and are modelled as HOL strings.
  File names may hold any UTF-16 code unit (the sanitizer's character class has a CJK
  range), so a file name is a list of code units.
\<close>

type_synonym ustring = "nat list"

datatype ProcessStatus = Idle | Processing | Done | Error

datatype ProcessMode = Convert | Compress | Both

datatype ResizeMode = ResizeNone | ResizeScale | ResizeCustom

text \<open>
  The messages the code stores in \<open>errorMessage\<close>. The source's literals are Chinese;
  each constructor stands for one literal message:
  \<^item> \<open>NoCanvasContext\<close>: "cannot create the Canvas context";
  \<^item> \<open>ConvertFailed\<close>: "conversion failed" (store/useImageStore.ts line 87);
  \<^item> \<open>ImageLoadFailed\<close>: "image failed to load";
  \<^item> \<open>LoadTimeout\<close>: "image load timed out, please retry";
  \<^item> \<open>ImageLoadFailedCheckFile\<close>: "image failed to load, check whether the file is damaged";
  \<^item> \<open>ConvertFailedTryOther\<close>: "image conversion failed, try another format";
  \<^item> \<open>ProcessingFailed\<close>: the generic "processing failed" used for a thrown value
    that is not an Error object;
  \<^item> \<open>ThrownError m\<close>: an Error object with message \<open>m\<close> thrown by a platform or
    library call.
\<close>

datatype error =
    NoCanvasContext
  | ConvertFailed
  | ImageLoadFailed
  | LoadTimeout
  | ImageLoadFailedCheckFile
  | ConvertFailedTryOther
  | ProcessingFailed
  | ThrownError string

text \<open>The browser's File: display name, declared MIME type, byte length.\<close>

record File =
  fname :: ustring
  ftype :: string
  fsize :: nat

text \<open>
  A Blob is what an encoder returned. The bytes themselves are produced by the platform
  (canvas encoder, compression library) and are not modelled; a blob is identified by
  the request that produced it and carries its byte length:
  \<^item> \<open>Encoded w h t q n\<close>: the result of encoding a \<open>w\<close> by \<open>h\<close> canvas with requested
    type \<open>t\<close> and quality \<open>q\<close>, of \<open>n\<close> bytes;
  \<^item> \<open>CompressedFile f n\<close>, \<open>CompressedBlob b n\<close>: the result of the compression
    library on the file \<open>f\<close> or on the blob \<open>b\<close>, of \<open>n\<close> bytes.
\<close>

datatype Blob =
    Encoded int int string rat nat
  | CompressedFile File nat
  | CompressedBlob Blob nat

fun blob_size :: "Blob \<Rightarrow> nat" where
  "blob_size (Encoded w h t q n) = n"
| "blob_size (CompressedFile f n) = n"
| "blob_size (CompressedBlob b n) = n"

text \<open>
  \<open>ImageConfig['settings']\<close>. The optional fields \<open>width\<close>, \<open>height\<close>, \<open>scale\<close> are
  options (\<open>None\<close> is JavaScript's \<open>undefined\<close>). \<open>scale\<close> is a JavaScript number,
  modelled by an exact rational; \<open>width\<close> and \<open>height\<close> are pixel counts.
\<close>

record Settings =
  format :: string
  enableCompression :: bool
  mode :: ProcessMode
  width :: "int option"
  height :: "int option"
  maintainAspectRatio :: bool
  scale :: "rat option"

text \<open>
  \<open>GlobalSettings\<close> has the fields of the per-image settings and \<open>resizeMode\<close>. The
  default object of store/useImageStore.ts leaves \<open>resizeMode\<close> out, so it is an option.
\<close>

record GlobalSettings = Settings +
  resizeMode :: "ResizeMode option"

text \<open>
  \<open>ImageConfig['result']\<close>. \<open>compressionRatio\<close> is \<open>1 - size / originalSize\<close> in double
  arithmetic; it is modelled by the exact rational, and by \<open>None\<close> when the original
  size is 0 (where JavaScript gives NaN or -Infinity, not a ratio).
\<close>

record Result =
  blob :: Blob
  url :: string
  rsize :: nat
  originalSize :: nat
  compressionRatio :: "rat option"

record ImageConfig =
  img_id :: string
  img_file :: File
  previewUrl :: string
  status :: ProcessStatus
  errorMessage :: "error option"
  settings :: Settings
  result :: "Result option"

record AppState =
  images :: "ImageConfig list"
  globalSettings :: GlobalSettings
  isProcessing :: bool

text \<open>\<open>Partial<ImageConfig['settings']>\<close>: every key may be absent (\<open>None\<close>).\<close>

record PartialSettings =
  p_format :: "string option"
  p_enableCompression :: "bool option"
  p_mode :: "ProcessMode option"
  p_width :: "int option option"
  p_height :: "int option option"
  p_maintainAspectRatio :: "bool option"
  p_scale :: "rat option option"

record PartialGlobalSettings = PartialSettings +
  p_resizeMode :: "ResizeMode option option"

definition defaultGlobalSettings :: GlobalSettings where
  "defaultGlobalSettings =
     \<lparr> format = ''image/webp'', enableCompression = True, mode = Convert,
       width = None, height = None, maintainAspectRatio = True, scale = Some 1,
       resizeMode = None \<rparr>"

definition initialState :: AppState where
  "initialState = \<lparr> images = [], globalSettings = defaultGlobalSettings, isProcessing = False \<rparr>"

section \<open>Store actions (store/useImageStore.ts)\<close>

text \<open>The object spread \<open>{ ...img.settings, ...settings }\<close>: keys present in the partial win.\<close>

definition merge_key :: "'a \<Rightarrow> 'a option \<Rightarrow> 'a" where
  "merge_key old new = (case new of None \<Rightarrow> old | Some v \<Rightarrow> v)"

definition merge_settings :: "Settings \<Rightarrow> PartialSettings \<Rightarrow> Settings" where
  "merge_settings s p =
     \<lparr> format = merge_key (format s) (p_format p),
       enableCompression = merge_key (enableCompression s) (p_enableCompression p),
       mode = merge_key (mode s) (p_mode p),
       width = merge_key (width s) (p_width p),
       height = merge_key (height s) (p_height p),
       maintainAspectRatio = merge_key (maintainAspectRatio s) (p_maintainAspectRatio p),
       scale = merge_key (scale s) (p_scale p) \<rparr>"

definition merge_global :: "GlobalSettings \<Rightarrow> PartialGlobalSettings \<Rightarrow> GlobalSettings" where
  "merge_global g p =
     \<lparr> format = merge_key (format g) (p_format p),
       enableCompression = merge_key (enableCompression g) (p_enableCompression p),
       mode = merge_key (mode g) (p_mode p),
       width = merge_key (width g) (p_width p),
       height = merge_key (height g) (p_height p),
       maintainAspectRatio = merge_key (maintainAspectRatio g) (p_maintainAspectRatio p),
       scale = merge_key (scale g) (p_scale p),
       resizeMode = merge_key (resizeMode g) (p_resizeMode p) \<rparr>"

text \<open>
  \<open>addFiles\<close> (lines 135-156). The ids come from the clock and the random generator
  and the preview URLs from the platform: both are supplied with each file. The
  settings object lists five keys; \<open>width\<close> and \<open>height\<close> are not among them.
\<close>

definition starts_with :: "string \<Rightarrow> string \<Rightarrow> bool" where
  "starts_with s p = (take (length p) s = p)"

definition seed_settings :: "GlobalSettings \<Rightarrow> Settings" where
  "seed_settings g =
     \<lparr> format = format g, enableCompression = enableCompression g, mode = mode g,
       width = None, height = None,
       maintainAspectRatio = maintainAspectRatio g, scale = scale g \<rparr>"

definition new_image :: "GlobalSettings \<Rightarrow> File \<times> string \<times> string \<Rightarrow> ImageConfig" where
  "new_image g = (\<lambda>(f, i, u).
     \<lparr> img_id = i, img_file = f, previewUrl = u, status = Idle, errorMessage = None,
       settings = seed_settings g, result = None \<rparr>)"

definition addFiles :: "(File \<times> string \<times> string) list \<Rightarrow> AppState \<Rightarrow> AppState" where
  "addFiles files s =
     (let validFiles = filter (\<lambda>(f, i, u). starts_with (ftype f) ''image/'') files;
          newImages = map (new_image (globalSettings s)) validFiles
      in s\<lparr>images := images s @ newImages\<rparr>)"

text \<open>\<open>removeImage\<close> (lines 161-174); the revoked URLs are an effect outside the state.\<close>

definition removeImage :: "string \<Rightarrow> AppState \<Rightarrow> AppState" where
  "removeImage i s = s\<lparr>images := filter (\<lambda>img. img_id img \<noteq> i) (images s)\<rparr>"

text \<open>\<open>updateSettings\<close> (lines 179-187).\<close>

definition updateSettings :: "string \<Rightarrow> PartialSettings \<Rightarrow> AppState \<Rightarrow> AppState" where
  "updateSettings i p s =
     s\<lparr>images := map (\<lambda>img.
        if img_id img = i
        then img\<lparr>settings := merge_settings (settings img) p, status := Idle, result := None\<rparr>
        else img) (images s)\<rparr>"

text \<open>\<open>updateGlobalSettings\<close> (lines 192-196).\<close>

definition updateGlobalSettings :: "PartialGlobalSettings \<Rightarrow> AppState \<Rightarrow> AppState" where
  "updateGlobalSettings p s = s\<lparr>globalSettings := merge_global (globalSettings s) p\<rparr>"

text \<open>\<open>applyGlobalSettings\<close> (lines 201-218).\<close>

definition apply_to_image :: "GlobalSettings \<Rightarrow> ImageConfig \<Rightarrow> ImageConfig" where
  "apply_to_image g img =
     img\<lparr>settings := (settings img)\<lparr>format := format g,
                                     enableCompression := enableCompression g,
                                     mode := mode g,
                                     maintainAspectRatio := maintainAspectRatio g,
                                     scale := scale g\<rparr>,
         status := Idle, result := None\<rparr>"

definition applyGlobalSettings :: "AppState \<Rightarrow> AppState" where
  "applyGlobalSettings s = s\<lparr>images := map (apply_to_image (globalSettings s)) (images s)\<rparr>"

text \<open>\<open>clearAll\<close> (lines 356-368).\<close>

definition clearAll :: "AppState \<Rightarrow> AppState" where
  "clearAll s = s\<lparr>images := []\<rparr>"

section \<open>The platform\<close>

text \<open>
  Image decoding, the canvas, its encoder, the compression library and object URLs
  belong to the browser and to an external library. They are parameters of the model:
  \<^item> \<open>decode f\<close>: the event the \<open>Image\<close> element fires for the file \<open>f\<close>, \<open>onload\<close> with
    the decoded width and height, or \<open>onerror\<close>;
  \<^item> \<open>loads_within_30s f\<close>: whether that event fires before the 30 second timer of the
    second copy's \<open>convertImage\<close> (the first copy has no timer and waits for the event);
  \<^item> \<open>context2d\<close>: whether \<open>getContext('2d')\<close> returns a context;
  \<^item> \<open>toBlob w h t q\<close>: what \<open>canvas.toBlob\<close> passes to its callback for a \<open>w\<close> by \<open>h\<close>
    canvas, requested type \<open>t\<close> and quality \<open>q\<close>: \<open>None\<close> for \<open>null\<close>, \<open>Some n\<close> for a
    blob of \<open>n\<close> bytes;
  \<^item> \<open>imageCompression x\<close>: the library call on a file or a blob: the byte length of
    its result, or the error it was rejected with;
  \<^item> \<open>createObjectURL b\<close>: the URL the platform hands out for a blob.
\<close>

datatype load_event = Loaded int int | LoadError

record Platform =
  decode :: "File \<Rightarrow> load_event"
  loads_within_30s :: "File \<Rightarrow> bool"
  context2d :: bool
  toBlob :: "int \<Rightarrow> int \<Rightarrow> string \<Rightarrow> rat \<Rightarrow> nat option"
  imageCompression :: "File + Blob \<Rightarrow> error + nat"
  createObjectURL :: "Blob \<Rightarrow> string"

section \<open>convertImage and compressImage of store/useImageStore.ts\<close>

text \<open>The quality block of \<open>convertImage\<close> (lines 73-80).\<close>

definition convertImage_quality :: "string \<Rightarrow> bool \<Rightarrow> rat" where
  "convertImage_quality fmt enableCompression' =
     (if enableCompression' then
        (if fmt = ''image/jpeg'' \<or> fmt = ''image/webp'' then 92 / 100
         else if fmt = ''image/avif'' then 9 / 10
         else 1)
      else 1)"

text \<open>
  \<open>convertImage\<close> (lines 45-102): the canvas takes the decoded image's own width and
  height; a \<open>null\<close> blob rejects the promise.
\<close>

definition convertImage :: "Platform \<Rightarrow> File \<Rightarrow> string \<Rightarrow> bool \<Rightarrow> error + Blob" where
  "convertImage pf f fmt enableCompression' =
     (case decode pf f of
        LoadError \<Rightarrow> Inl ImageLoadFailed
      | Loaded w h \<Rightarrow>
          if \<not> context2d pf then Inl NoCanvasContext
          else
            (let quality = convertImage_quality fmt enableCompression' in
             case toBlob pf w h fmt quality of
               None \<Rightarrow> Inl ConvertFailed
             | Some n \<Rightarrow> Inr (Encoded w h fmt quality n)))"

text \<open>\<open>compressImage\<close> (lines 107-122), on a file or on a blob.\<close>

definition compressImage :: "Platform \<Rightarrow> File + Blob \<Rightarrow> error + Blob" where
  "compressImage pf x =
     (case imageCompression pf x of
        Inl e \<Rightarrow> Inl e
      | Inr n \<Rightarrow> (case x of Inl f \<Rightarrow> Inr (CompressedFile f n) | Inr b \<Rightarrow> Inr (CompressedBlob b n)))"

section \<open>processSingleImage (store/useImageStore.ts, lines 223-288)\<close>

text \<open>
  \<open>processSingleImage\<close> is asynchronous. It runs in three parts, and other store actions
  may run between them:
  \<^enum> \<open>processSingleImage_begin\<close> (lines 224-233): look the record up; return at once when
    it is absent; otherwise mark it \<open>processing\<close> and keep the record read (the source's \<open>image\<close>, here \<open>image'\<close>);
  \<^enum> \<open>processSingleImage_work\<close> (lines 236-253): the awaited conversion and compression,
    from the settings and file of the record read at the start;
  \<^enum> \<open>processSingleImage_settle\<close> (lines 255-286): store the result, or the error caught.
\<close>

definition set_status :: "string \<Rightarrow> ProcessStatus \<Rightarrow> AppState \<Rightarrow> AppState" where
  "set_status i st s =
     s\<lparr>images := map (\<lambda>img. if img_id img = i then img\<lparr>status := st\<rparr> else img) (images s)\<rparr>"

definition processSingleImage_begin :: "string \<Rightarrow> AppState \<Rightarrow> AppState \<times> ImageConfig option" where
  "processSingleImage_begin i s =
     (case find (\<lambda>img. img_id img = i) (images s) of
        None \<Rightarrow> (s, None)
      | Some image' \<Rightarrow> (set_status i Processing s, Some image'))"

definition processSingleImage_work :: "Platform \<Rightarrow> ImageConfig \<Rightarrow> error + Blob" where
  "processSingleImage_work pf image' =
     (let f = img_file image'; fmt = format (settings image');
          ec = enableCompression (settings image')
      in case mode (settings image') of
           Convert \<Rightarrow> convertImage pf f fmt False
         | Compress \<Rightarrow> compressImage pf (Inl f)
         | Both \<Rightarrow>
             (case convertImage pf f fmt ec of
                Inl e \<Rightarrow> Inl e
              | Inr converted \<Rightarrow> if ec then compressImage pf (Inr converted) else Inr converted))"

definition make_result :: "Platform \<Rightarrow> ImageConfig \<Rightarrow> Blob \<Rightarrow> Result" where
  "make_result pf image' resultBlob =
     \<lparr> blob = resultBlob, url = createObjectURL pf resultBlob,
       rsize = blob_size resultBlob, originalSize = fsize (img_file image'),
       compressionRatio =
         (if fsize (img_file image') = 0 then None
          else Some (1 - of_nat (blob_size resultBlob) / of_nat (fsize (img_file image')))) \<rparr>"

definition set_done :: "string \<Rightarrow> Result \<Rightarrow> AppState \<Rightarrow> AppState" where
  "set_done i r s =
     s\<lparr>images := map (\<lambda>img. if img_id img = i then img\<lparr>status := Done, result := Some r\<rparr>
                               else img) (images s)\<rparr>"

definition set_error :: "string \<Rightarrow> error \<Rightarrow> AppState \<Rightarrow> AppState" where
  "set_error i e s =
     s\<lparr>images := map (\<lambda>img. if img_id img = i then img\<lparr>status := Error, errorMessage := Some e\<rparr>
                               else img) (images s)\<rparr>"

definition processSingleImage_settle ::
  "Platform \<Rightarrow> string \<Rightarrow> ImageConfig \<Rightarrow> error + Blob \<Rightarrow> AppState \<Rightarrow> AppState" where
  "processSingleImage_settle pf i image' outcome s =
     (case outcome of
        Inr resultBlob \<Rightarrow> set_done i (make_result pf image' resultBlob) s
      | Inl e \<Rightarrow> set_error i e s)"

text \<open>The whole call when nothing else runs in between.\<close>

definition processSingleImage :: "Platform \<Rightarrow> string \<Rightarrow> AppState \<Rightarrow> AppState" where
  "processSingleImage pf i s =
     (case processSingleImage_begin i s of
        (s', None) \<Rightarrow> s'
      | (s', Some image') \<Rightarrow>
          processSingleImage_settle pf i image' (processSingleImage_work pf image') s')"

section \<open>The worker (workers/image.worker.ts)\<close>

text \<open>
  The worker's request and its platform: \<open>createImageBitmap\<close> on the bytes and their
  MIME type gives the bitmap's width and height or throws; \<open>offscreenContext2d\<close> says
  whether the \<open>OffscreenCanvas\<close> hands out a context; \<open>convertToBlob w h t q\<close> resolves
  with a blob (its byte length) or rejects.
\<close>

record WorkerMessage =
  wtype :: ProcessMode
  wid :: string
  imageData :: "nat list"
  mimeType :: string
  wformat :: string
  wenableCompression :: bool

datatype WorkerResponse =
    Progress string nat
  | Success string Blob nat
  | Failure string error

record WorkerPlatform =
  createImageBitmap :: "nat list \<Rightarrow> string \<Rightarrow> error + int \<times> int"
  offscreenContext2d :: bool
  convertToBlob :: "int \<Rightarrow> int \<Rightarrow> string \<Rightarrow> rat \<Rightarrow> error + nat"

text \<open>Output format and quality (lines 54-72).\<close>

definition worker_policy :: "ProcessMode \<Rightarrow> string \<Rightarrow> string \<Rightarrow> bool \<Rightarrow> string \<times> rat" where
  "worker_policy type' fmt mime enableCompression' =
     (if type' = Convert \<or> type' = Both then
        (if enableCompression' then
           (if fmt = ''image/jpeg'' \<or> fmt = ''image/webp'' then (fmt, 92 / 100)
            else if fmt = ''image/avif'' then (fmt, 9 / 10)
            else (fmt, 1))
         else (fmt, 1))
      else if type' = Compress then (mime, 92 / 100)
      else (fmt, 1))"

text \<open>
  The message handler (lines 28-100): the list of messages posted back, in order. The
  canvas has the bitmap's own width and height.
\<close>

definition worker_onmessage :: "WorkerPlatform \<Rightarrow> WorkerMessage \<Rightarrow> WorkerResponse list" where
  "worker_onmessage wp m =
     [Progress (wid m) 10] @
     (case createImageBitmap wp (imageData m) (mimeType m) of
        Inl e \<Rightarrow> [Failure (wid m) e]
      | Inr (w, h) \<Rightarrow>
          [Progress (wid m) 30] @
          (if \<not> offscreenContext2d wp then [Failure (wid m) NoCanvasContext]
           else
             [Progress (wid m) 50] @
             (let (outputFormat, quality) =
                    worker_policy (wtype m) (wformat m) (mimeType m) (wenableCompression m)
              in [Progress (wid m) 70] @
                 (case convertToBlob wp w h outputFormat quality of
                    Inl e \<Rightarrow> [Failure (wid m) e]
                  | Inr n \<Rightarrow>
                      [Progress (wid m) 90,
                       Success (wid m) (Encoded w h outputFormat quality n) n]))))"

section \<open>The store with resizing (second copy of the store, after components/ComparisonSlider.tsx)\<close>

text \<open>
  The sources hold a second copy of the store (in the file of
  components/ComparisonSlider.tsx, from its line 200 on). Its state and its actions are
  those above, except that \<open>addFiles\<close> and \<open>applyGlobalSettings\<close> also copy \<open>width\<close> and
  \<open>height\<close>; it adds the dimension planning, the AVIF probe and the PNG fallback. Its
  functions that differ from the first copy's carry the suffix 2.
\<close>

record ResizeOptions =
  r_resizeMode :: "ResizeMode option"
  r_scale :: "rat option"
  r_width :: "int option"
  r_height :: "int option"
  r_maintainAspectRatio :: bool

text \<open>\<open>Math.round\<close> on an exact rational: the nearest integer, halves upward.\<close>

definition math_round :: "rat \<Rightarrow> int" where
  "math_round x = \<lfloor>x + 1 / 2\<rfloor>"

text \<open>JavaScript's truthiness of an optional number: neither \<open>undefined\<close> nor 0.\<close>

definition truthy :: "'a::zero option \<Rightarrow> bool" where
  "truthy x = (case x of None \<Rightarrow> False | Some v \<Rightarrow> v \<noteq> 0)"

definition or_else :: "'a::zero option \<Rightarrow> 'a \<Rightarrow> 'a" where
  "or_else x d = (case x of None \<Rightarrow> d | Some v \<Rightarrow> if v = 0 then d else v)"

text \<open>
  \<open>calculateResizedDimensions\<close> (lines 256-299). The quotients are exact; the original
  width and height of a decoded image are positive, so no quotient divides by zero.
\<close>

definition calculateResizedDimensions :: "int \<Rightarrow> int \<Rightarrow> ResizeOptions \<Rightarrow> int \<times> int" where
  "calculateResizedDimensions originalWidth originalHeight options =
     (if r_resizeMode options = Some ResizeNone then (originalWidth, originalHeight)
      else if r_resizeMode options = Some ResizeScale \<and> truthy (r_scale options) then
        (math_round (of_int originalWidth * the (r_scale options)),
         math_round (of_int originalHeight * the (r_scale options)))
      else if r_resizeMode options = Some ResizeCustom then
        (let targetWidth = or_else (r_width options) originalWidth;
             targetHeight = or_else (r_height options) originalHeight
         in if r_maintainAspectRatio options then
              (let aspectRatio = (of_int originalWidth :: rat) / of_int originalHeight
               in if truthy (r_width options) \<and> \<not> truthy (r_height options) then
                    (targetWidth, math_round (of_int targetWidth / aspectRatio))
                  else if \<not> truthy (r_width options) \<and> truthy (r_height options) then
                    (math_round (of_int targetHeight * aspectRatio), targetHeight)
                  else if truthy (r_width options) \<and> truthy (r_height options) then
                    (let scaleX = (of_int (the (r_width options)) :: rat) / of_int originalWidth;
                         scaleY = (of_int (the (r_height options)) :: rat) / of_int originalHeight;
                         scale' = min scaleX scaleY
                     in (math_round (of_int originalWidth * scale'),
                         math_round (of_int originalHeight * scale')))
                  else (targetWidth, targetHeight))
            else (targetWidth, targetHeight))
      else (originalWidth, originalHeight))"

text \<open>
  The size limit inside \<open>convertImage\<close> (lines 366-376). A side of 0 makes its quotient
  \<open>Infinity\<close> in JavaScript, which \<open>Math.min\<close> discards; the two sides cannot both be 0
  here, since one exceeds the limit.
\<close>

definition maxDimension :: int where
  "maxDimension = 4096"

definition limit_scale :: "int \<Rightarrow> int \<Rightarrow> rat" where
  "limit_scale w h =
     (if w = 0 then of_int maxDimension / of_int h
      else if h = 0 then of_int maxDimension / of_int w
      else min (of_int maxDimension / of_int w) (of_int maxDimension / of_int h))"

definition limit_dimensions :: "int \<times> int \<Rightarrow> int \<times> int" where
  "limit_dimensions = (\<lambda>(w, h).
     if w > maxDimension \<or> h > maxDimension then
       (let scale' = limit_scale w h
        in (math_round (of_int w * scale'), math_round (of_int h * scale')))
     else (w, h))"

text \<open>\<open>checkFormatSupport\<close> (lines 304-319) and \<open>getFallbackFormat\<close> (lines 324-328).\<close>

definition checkFormatSupport :: "Platform \<Rightarrow> string \<Rightarrow> bool" where
  "checkFormatSupport pf fmt =
     (if fmt = ''image/avif'' then
        (case toBlob pf 1 1 ''image/avif'' (1 / 2) of None \<Rightarrow> False | Some n \<Rightarrow> n > 0)
      else True)"

definition getFallbackFormat :: "string \<Rightarrow> string" where
  "getFallbackFormat fmt = (if fmt = ''image/avif'' then ''image/webp'' else fmt)"

text \<open>
  \<open>convertImage\<close> of the second copy (lines 334-445). Its quality block (lines 399-406) is
  the first copy's, applied to the target format. Exceptions of the canvas calls
  themselves (the \<open>catch\<close> of lines 431-434) are not modelled.
\<close>

definition png_fallback :: "Platform \<Rightarrow> int \<Rightarrow> int \<Rightarrow> error + Blob" where
  "png_fallback pf w h =
     (case toBlob pf w h ''image/png'' 1 of
        Some m \<Rightarrow> Inr (Encoded w h ''image/png'' 1 m)
      | None \<Rightarrow> Inl ConvertFailedTryOther)"

definition convertImage2 ::
  "Platform \<Rightarrow> File \<Rightarrow> string \<Rightarrow> bool \<Rightarrow> ResizeOptions option \<Rightarrow> error + Blob" where
  "convertImage2 pf f fmt enableCompression' resizeOptions =
     (let isFormatSupported = checkFormatSupport pf fmt;
          targetFormat = (if isFormatSupported then fmt else getFallbackFormat fmt)
      in if \<not> loads_within_30s pf f then Inl LoadTimeout
         else case decode pf f of
           LoadError \<Rightarrow> Inl ImageLoadFailedCheckFile
         | Loaded iw ih \<Rightarrow>
             (let (finalWidth, finalHeight) =
                    limit_dimensions
                      (case resizeOptions of
                         Some ro \<Rightarrow> calculateResizedDimensions iw ih ro
                       | None \<Rightarrow> (iw, ih))
              in if \<not> context2d pf then Inl NoCanvasContext
                 else
                   (let quality = convertImage_quality targetFormat enableCompression'
                    in case toBlob pf finalWidth finalHeight targetFormat quality of
                         Some n \<Rightarrow>
                           if n > 0 then Inr (Encoded finalWidth finalHeight targetFormat quality n)
                           else png_fallback pf finalWidth finalHeight
                       | None \<Rightarrow> png_fallback pf finalWidth finalHeight)))"

text \<open>
  The work of the second copy's \<open>processSingleImage\<close> (lines 597-626): \<open>resizeMode\<close> is
  read from the global settings, the other resize options from the record.
\<close>

definition resize_options :: "GlobalSettings \<Rightarrow> ImageConfig \<Rightarrow> ResizeOptions" where
  "resize_options g image' =
     \<lparr> r_resizeMode = resizeMode g, r_scale = scale (settings image'),
       r_width = width (settings image'), r_height = height (settings image'),
       r_maintainAspectRatio = maintainAspectRatio (settings image') \<rparr>"

definition processSingleImage_work2 :: "Platform \<Rightarrow> GlobalSettings \<Rightarrow> ImageConfig \<Rightarrow> error + Blob" where
  "processSingleImage_work2 pf g image' =
     (let f = img_file image'; fmt = format (settings image');
          ec = enableCompression (settings image');
          resizeOptions = resize_options g image'
      in case mode (settings image') of
           Convert \<Rightarrow> convertImage2 pf f fmt False (Some resizeOptions)
         | Compress \<Rightarrow>
             (case convertImage2 pf f (ftype f) False (Some resizeOptions) of
                Inl e \<Rightarrow> Inl e
              | Inr resized \<Rightarrow> compressImage pf (Inr resized))
         | Both \<Rightarrow>
             (case convertImage2 pf f fmt ec (Some resizeOptions) of
                Inl e \<Rightarrow> Inl e
              | Inr converted \<Rightarrow> if ec then compressImage pf (Inr converted) else Inr converted))"

text \<open>
  The second copy's \<open>processSingleImage\<close> makes the same three \<open>set\<close> calls around this
  work. The URL it stores is a data URL read from the blob; a failure of that read is
  not modelled.
\<close>

definition processSingleImage2 :: "Platform \<Rightarrow> string \<Rightarrow> AppState \<Rightarrow> AppState" where
  "processSingleImage2 pf i s =
     (case processSingleImage_begin i s of
        (s', None) \<Rightarrow> s'
      | (s', Some image') \<Rightarrow>
          processSingleImage_settle pf i image'
            (processSingleImage_work2 pf (globalSettings s') image') s')"

section \<open>processImages (store/useImageStore.ts, lines 293-303)\<close>

text \<open>
  \<open>processImages\<close> runs in two parts. \<open>processImages_begin\<close> (lines 294-300, up to the
  \<open>await\<close>) sets the flag and calls \<open>processSingleImage\<close> for every pending record, one
  after the other; each call runs to its own first \<open>await\<close>, that is through
  \<open>processSingleImage_begin\<close>, before the next call starts. It yields the state and the
  operations now in flight, each with its id and the record it read. The operations
  then settle in an order the platform decides, each by \<open>processSingleImage_settle\<close>.
  \<open>processImages_end\<close> (line 302) runs once all of them have settled.
\<close>

type_synonym operation = "string \<times> ImageConfig"

definition launch :: "AppState \<times> operation list \<Rightarrow> string \<Rightarrow> AppState \<times> operation list" where
  "launch = (\<lambda>(s, ops) i.
     case processSingleImage_begin i s of
       (s', None) \<Rightarrow> (s', ops)
     | (s', Some image') \<Rightarrow> (s', ops @ [(i, image')]))"

definition processImages_begin :: "AppState \<Rightarrow> AppState \<times> operation list" where
  "processImages_begin s =
     (let pendingImages = filter (\<lambda>img. status img \<noteq> Done) (images s)
      in foldl launch (s\<lparr>isProcessing := True\<rparr>, []) (map img_id pendingImages))"

definition processImages_end :: "AppState \<Rightarrow> AppState" where
  "processImages_end s = s\<lparr>isProcessing := False\<rparr>"

text \<open>One operation settling, with the outcome of its work on the platform.\<close>

definition settle :: "Platform \<Rightarrow> AppState \<Rightarrow> operation \<Rightarrow> AppState" where
  "settle pf s = (\<lambda>(i, image'). processSingleImage_settle pf i image' (processSingleImage_work pf image') s)"

text \<open>A whole batch run in which the operations settle in the order \<open>order\<close>.\<close>

definition processImages :: "Platform \<Rightarrow> (operation list \<Rightarrow> operation list) \<Rightarrow> AppState \<Rightarrow> AppState" where
  "processImages pf order s =
     (let (s', ops) = processImages_begin s
      in processImages_end (foldl (settle pf) s' (order ops)))"

text \<open>
  The record an operation leaves behind once it has settled: the record it read, with
  status \<open>done\<close> and the result of its own work, or with status \<open>error\<close> and the error
  of its own work.
\<close>

definition settled :: "Platform \<Rightarrow> ImageConfig \<Rightarrow> ImageConfig" where
  "settled pf img =
     (case processSingleImage_work pf img of
        Inr resultBlob \<Rightarrow> img\<lparr>status := Done, result := Some (make_result pf img resultBlob)\<rparr>
      | Inl e \<Rightarrow> img\<lparr>status := Error, errorMessage := Some e\<rparr>)"

text \<open>What one settling operation does to one record of the collection.\<close>

definition settle_record :: "Platform \<Rightarrow> operation \<Rightarrow> ImageConfig \<Rightarrow> ImageConfig" where
  "settle_record pf = (\<lambda>(i, image') img.
     if img_id img = i then
       (case processSingleImage_work pf image' of
          Inr resultBlob \<Rightarrow> img\<lparr>status := Done, result := Some (make_result pf image' resultBlob)\<rparr>
        | Inl e \<Rightarrow> img\<lparr>status := Error, errorMessage := Some e\<rparr>)
     else img)"

section \<open>exportImages (store/useImageStore.ts, lines 308-351)\<close>










section \<open>The store's atomic updates\<close>

text \<open>
  Every change of the store is one call of \<open>set\<close>, and JavaScript runs each call to its
  end before anything else runs. So the states the store can be in are the states
  reached from the initial one by a sequence of these updates, in any order the callers
  and the platform produce. \<open>BeginProcessing\<close>, \<open>SettleDone\<close> and \<open>SettleError\<close> are the
  three \<open>set\<close> calls of \<open>processSingleImage\<close>; \<open>SetIsProcessing\<close> is the two of
  \<open>processImages\<close>.
\<close>

datatype action =
    AddFiles "(File \<times> string \<times> string) list"
  | RemoveImage string
  | UpdateSettings string PartialSettings
  | UpdateGlobalSettings PartialGlobalSettings
  | ApplyGlobalSettings
  | BeginProcessing string
  | SettleDone string Result
  | SettleError string error
  | SetIsProcessing bool
  | ClearAll

fun step :: "action \<Rightarrow> AppState \<Rightarrow> AppState" where
  "step (AddFiles files) s = addFiles files s"
| "step (RemoveImage i) s = removeImage i s"
| "step (UpdateSettings i p) s = updateSettings i p s"
| "step (UpdateGlobalSettings p) s = updateGlobalSettings p s"
| "step ApplyGlobalSettings s = applyGlobalSettings s"
| "step (BeginProcessing i) s = fst (processSingleImage_begin i s)"
| "step (SettleDone i r) s = set_done i r s"
| "step (SettleError i e) s = set_error i e s"
| "step (SetIsProcessing b) s = s\<lparr>isProcessing := b\<rparr>"
| "step ClearAll s = clearAll s"

definition run :: "action list \<Rightarrow> AppState \<Rightarrow> AppState" where
  "run acts s = foldl (\<lambda>s' a. step a s') s acts"

text \<open>What does hold of a record at all times.\<close>

definition record_ok :: "ImageConfig \<Rightarrow> bool" where
  "record_ok img =
     ((status img = Done \<longrightarrow> result img \<noteq> None) \<and>
      (status img = Error \<longrightarrow> errorMessage img \<noteq> None))"

section \<open>Example values\<close>

definition photo :: File where
  "photo = \<lparr> fname = map of_char ''photo.png'', ftype = ''image/png'', fsize = 4000 \<rparr>"

definition notes_txt :: File where
  "notes_txt = \<lparr> fname = map of_char ''notes.txt'', ftype = ''text/plain'', fsize = 10 \<rparr>"

text \<open>A platform on which every step succeeds, and one whose encoder returns \<open>null\<close>.\<close>

definition platform_ok :: Platform where
  "platform_ok =
     \<lparr> decode = (\<lambda>f. Loaded 2000 1000), loads_within_30s = (\<lambda>f. True), context2d = True,
       toBlob = (\<lambda>w h t q. Some 1000),
       imageCompression = (\<lambda>x. Inr 500),
       createObjectURL = (\<lambda>b. ''blob:result'') \<rparr>"

definition platform_null_blob :: Platform where
  "platform_null_blob = platform_ok\<lparr>toBlob := (\<lambda>w h t q. None)\<rparr>"

definition one_image :: AppState where
  "one_image = addFiles [(photo, ''a'', ''blob:preview'')] initialState"

definition no_change :: PartialSettings where
  "no_change =
     \<lparr> p_format = None, p_enableCompression = None, p_mode = None, p_width = None,
       p_height = None, p_maintainAspectRatio = None, p_scale = None \<rparr>"

text \<open>A record with the given mode, requested format, compression flag and scale.\<close>

definition example_image :: "ProcessMode \<Rightarrow> string \<Rightarrow> bool \<Rightarrow> rat \<Rightarrow> ImageConfig" where
  "example_image m fmt ec sc =
     \<lparr> img_id = ''a'', img_file = photo, previewUrl = ''blob:preview'', status = Idle,
       errorMessage = None,
       settings = \<lparr> format = fmt, enableCompression = ec, mode = m, width = None,
                    height = None, maintainAspectRatio = True, scale = Some sc \<rparr>,
       result = None \<rparr>"

text \<open>Platforms whose encoder returns \<open>null\<close> for WEBP only, and for AVIF only.\<close>

definition platform_no_webp :: Platform where
  "platform_no_webp =
     platform_ok\<lparr>toBlob := (\<lambda>w h t q. if t = ''image/webp'' then None else Some 1000)\<rparr>"

definition platform_no_avif :: Platform where
  "platform_no_avif =
     platform_ok\<lparr>toBlob := (\<lambda>w h t q. if t = ''image/avif'' then None else Some 1000)\<rparr>"

text \<open>States with done records: one converted, one compressed, and two of the same base name.\<close>

definition one_done :: AppState where
  "one_done = processSingleImage platform_ok ''a'' one_image"

definition compress_only :: PartialSettings where
  "compress_only = no_change\<lparr>p_mode := Some Compress\<rparr>"

definition compress_jpeg :: PartialSettings where
  "compress_jpeg = no_change\<lparr>p_mode := Some Compress, p_format := Some ''image/jpeg''\<rparr>"

definition a_png :: File where
  "a_png = \<lparr> fname = map of_char ''a.png'', ftype = ''image/png'', fsize = 4000 \<rparr>"

definition a_jpg :: File where
  "a_jpg = \<lparr> fname = map of_char ''a.jpg'', ftype = ''image/jpeg'', fsize = 3000 \<rparr>"

definition two_done :: AppState where
  "two_done =
     processSingleImage platform_ok ''b''
       (processSingleImage platform_ok ''a''
          (addFiles [(a_png, ''a'', ''blob:pa''), (a_jpg, ''b'', ''blob:pb'')] initialState))"

text \<open>
  A valid resize policy: a scale factor, a custom width and a custom height, where
  given, are positive.
\<close>

definition valid_options :: "ResizeOptions \<Rightarrow> bool" where
  "valid_options ro =
     ((case r_scale ro of None \<Rightarrow> True | Some s \<Rightarrow> 0 < s) \<and>
      (case r_width ro of None \<Rightarrow> True | Some w \<Rightarrow> 0 < w) \<and>
      (case r_height ro of None \<Rightarrow> True | Some h \<Rightarrow> 0 < h))"

definition scale_by :: "rat \<Rightarrow> ResizeOptions" where
  "scale_by s =
     \<lparr> r_resizeMode = Some ResizeScale, r_scale = Some s, r_width = None, r_height = None,
       r_maintainAspectRatio = True \<rparr>"

definition global_scale :: GlobalSettings where
  "global_scale = defaultGlobalSettings\<lparr>resizeMode := Some ResizeScale\<rparr>"

text \<open>A platform that decodes every file to 8000 by 6000, and the worker's counterparts.\<close>

definition platform_big :: Platform where
  "platform_big = platform_ok\<lparr>decode := (\<lambda>f. Loaded 8000 6000)\<rparr>"

definition worker_ok :: WorkerPlatform where
  "worker_ok =
     \<lparr> createImageBitmap = (\<lambda>d t. Inr (8000, 6000)), offscreenContext2d = True,
       convertToBlob = (\<lambda>w h t q. Inr 1000) \<rparr>"

definition worker_no_avif :: WorkerPlatform where
  "worker_no_avif =
     worker_ok\<lparr>convertToBlob :=
       (\<lambda>w h t q. if t = ''image/avif'' then Inl (ThrownError ''unsupported type'') else Inr 1000)\<rparr>"

definition request :: "ProcessMode \<Rightarrow> string \<Rightarrow> bool \<Rightarrow> WorkerMessage" where
  "request m fmt ec =
     \<lparr> wtype = m, wid = ''a'', imageData = [137, 80, 78, 71], mimeType = ''image/png'',
       wformat = fmt, wenableCompression = ec \<rparr>"

text \<open>One record that requests AVIF.\<close>

definition avif_request :: PartialSettings where
  "avif_request = no_change\<lparr>p_format := Some ''image/avif''\<rparr>"

definition one_avif :: AppState where
  "one_avif = updateSettings ''a'' avif_request one_image"

text \<open>Two idle records, and a platform on which JPEG files fail to load.\<close>

definition two_idle :: AppState where
  "two_idle = addFiles [(a_png, ''a'', ''blob:pa''), (a_jpg, ''b'', ''blob:pb'')] initialState"

definition platform_jpeg_fails :: Platform where
  "platform_jpeg_fails =
     platform_ok\<lparr>decode := (\<lambda>f. if ftype f = ''image/jpeg'' then LoadError else Loaded 2000 1000)\<rparr>"

section \<open>Idempotence of applyGlobalSettings\<close>

lemma apply_to_image_twice: "apply_to_image g (apply_to_image g img) = apply_to_image g img"
  by (simp add: apply_to_image_def)

text \<open>
  Claim C9. Calling \<open>applyGlobalSettings\<close> twice in a row gives the same state as calling
  it once: the same per-record settings, statuses and results (and the same global
  settings and flag).
\<close>

theorem applyGlobalSettings_idempotent:
  "applyGlobalSettings (applyGlobalSettings s) = applyGlobalSettings s"
  by (simp add: applyGlobalSettings_def apply_to_image_twice comp_def)

section \<open>processSingleImage on an unknown id\<close>

lemma find_absent: "i \<notin> img_id ` set xs \<Longrightarrow> find (\<lambda>img. img_id img = i) xs = None"
  by (induction xs) auto

text \<open>
  Claim C10. For an id that no record of the collection has, \<open>processSingleImage\<close>
  returns at its first check: no record is read, no work is started, no error is
  raised, and the state is the one it was called in (collection, statuses, results,
  global settings and the \<open>isProcessing\<close> flag).
\<close>

theorem processSingleImage_unknown_id:
  assumes "i \<notin> img_id ` set (images s)"
  shows "processSingleImage_begin i s = (s, None) \<and> processSingleImage pf i s = s"
  using find_absent [OF assms]
  by (simp add: processSingleImage_def processSingleImage_begin_def)

section \<open>Records, statuses, results and error messages\<close>

lemmas example_defs =
  one_image_def addFiles_def initialState_def defaultGlobalSettings_def new_image_def
  seed_settings_def starts_with_def photo_def notes_txt_def no_change_def
  platform_ok_def platform_null_blob_def example_image_def platform_no_webp_def
  platform_no_avif_def one_done_def compress_only_def compress_jpeg_def a_png_def a_jpg_def
  two_done_def valid_options_def scale_by_def global_scale_def platform_big_def worker_ok_def
  worker_no_avif_def request_def avif_request_def one_avif_def two_idle_def
  platform_jpeg_fails_def

lemmas process_defs =
  processSingleImage_def processSingleImage_begin_def set_status_def
  processSingleImage_work_def convertImage_def convertImage_quality_def compressImage_def
  processSingleImage_settle_def set_done_def set_error_def make_result_def

lemma record_ok_step:
  assumes "\<forall>img\<in>set (images s). record_ok img"
  shows "\<forall>img\<in>set (images (step a s)). record_ok img"
proof (cases a)
  case (AddFiles files)
  then show ?thesis using assms
    by (auto simp: addFiles_def new_image_def record_ok_def)
next
  case (RemoveImage i)
  then show ?thesis using assms by (auto simp: removeImage_def)
next
  case (UpdateSettings i p)
  then show ?thesis using assms
    by (auto simp: updateSettings_def record_ok_def)
next
  case (UpdateGlobalSettings p)
  then show ?thesis using assms by (simp add: updateGlobalSettings_def)
next
  case ApplyGlobalSettings
  then show ?thesis using assms
    by (auto simp: applyGlobalSettings_def apply_to_image_def record_ok_def)
next
  case (BeginProcessing i)
  then show ?thesis using assms
    by (auto simp: processSingleImage_begin_def set_status_def record_ok_def split: option.splits)
next
  case (SettleDone i r)
  then show ?thesis using assms by (auto simp: set_done_def record_ok_def)
next
  case (SettleError i e)
  then show ?thesis using assms by (auto simp: set_error_def record_ok_def)
next
  case (SetIsProcessing b)
  then show ?thesis using assms by simp
next
  case ClearAll
  then show ?thesis by (simp add: clearAll_def)
qed

lemma record_ok_run:
  "\<forall>img\<in>set (images s). record_ok img \<Longrightarrow> \<forall>img\<in>set (images (run acts s)). record_ok img"
proof (induction acts arbitrary: s)
  case Nil
  then show ?case by (simp add: run_def)
next
  case (Cons a acts)
  have "\<forall>img\<in>set (images (step a s)). record_ok img"
    using Cons.prems by (rule record_ok_step)
  then have "\<forall>img\<in>set (images (run acts (step a s))). record_ok img"
    by (rule Cons.IH)
  then show ?case by (simp add: run_def)
qed

lemma ball_set_map: "(\<forall>y\<in>set (map f xs). Q y) = (\<forall>x\<in>set xs. Q (f x))"
  by (induction xs) simp_all

lemma updateSettings_resets:
  "\<forall>img\<in>set (images (updateSettings i p s)).
     img_id img = i \<longrightarrow> status img = Idle \<and> result img = None"
proof -
  have "images (updateSettings i p s) =
          map (\<lambda>img. if img_id img = i
                 then img\<lparr>settings := merge_settings (settings img) p, status := Idle, result := None\<rparr>
                 else img) (images s)"
    by (simp add: updateSettings_def)
  then show ?thesis
    by (simp only: ball_set_map) simp
qed

lemma processSingleImage_failure:
  assumes "find (\<lambda>img. img_id img = i) (images s) = Some image'"
    and "processSingleImage_work pf image' = Inl e"
  shows "images (processSingleImage pf i s) =
           map (\<lambda>img. if img_id img = i then img\<lparr>status := Error, errorMessage := Some e\<rparr> else img)
             (images s)"
  using assms
  by (simp add: processSingleImage_def processSingleImage_begin_def processSingleImage_settle_def
        set_status_def set_error_def comp_def)

lemma processSingleImage_failure_status:
  assumes "find (\<lambda>img. img_id img = i) (images s) = Some image'"
    and "processSingleImage_work pf image' = Inl e"
  shows "\<forall>img\<in>set (images (processSingleImage pf i s)).
           img_id img = i \<longrightarrow> status img = Error \<and> errorMessage img = Some e"
  by (simp only: processSingleImage_failure [OF assms] ball_set_map) simp

text \<open>
  Claim C1, as amended. At all times (after any sequence of the store's updates from
  the initial state) a record with status \<open>done\<close> has a result and a record with status
  \<open>error\<close> has an error message. When the work of \<open>processSingleImage(id)\<close> fails with
  \<open>e\<close>, every record with that id gets status \<open>error\<close> and the message \<open>e\<close>, and the
  collection keeps its ids. \<open>updateSettings(id, partial)\<close> leaves every record with
  that id in status \<open>idle\<close> without a result.
\<close>

theorem record_status_invariant:
  "(\<forall>img\<in>set (images (run acts initialState)). record_ok img) \<and>
   (\<forall>image' e. find (\<lambda>img. img_id img = i) (images s) = Some image' \<and>
        processSingleImage_work pf image' = Inl e \<longrightarrow>
        map img_id (images (processSingleImage pf i s)) = map img_id (images s) \<and>
        (\<forall>img\<in>set (images (processSingleImage pf i s)).
            img_id img = i \<longrightarrow> status img = Error \<and> errorMessage img = Some e)) \<and>
   (\<forall>img\<in>set (images (updateSettings i p s)).
        img_id img = i \<longrightarrow> status img = Idle \<and> result img = None)"
proof (intro conjI allI impI)
  show "\<forall>img\<in>set (images (run acts initialState)). record_ok img"
    by (rule record_ok_run) (simp add: initialState_def)
next
  fix image' e
  assume h: "find (\<lambda>img. img_id img = i) (images s) = Some image' \<and>
             processSingleImage_work pf image' = Inl e"
  from h have h1: "find (\<lambda>img. img_id img = i) (images s) = Some image'"
    and h2: "processSingleImage_work pf image' = Inl e" by simp_all
  show "map img_id (images (processSingleImage pf i s)) = map img_id (images s)"
    by (simp add: processSingleImage_failure [OF h1 h2] comp_def)
  show "\<forall>img\<in>set (images (processSingleImage pf i s)).
          img_id img = i \<longrightarrow> status img = Error \<and> errorMessage img = Some e"
    by (rule processSingleImage_failure_status [OF h1 h2])
next
  show "\<forall>img\<in>set (images (updateSettings i p s)).
          img_id img = i \<longrightarrow> status img = Idle \<and> result img = None"
    by (rule updateSettings_resets)
qed

theorem record_status_invariant_witness:
  "map status (images (run [AddFiles [(photo, ''a'', ''blob:preview'')], BeginProcessing ''a'',
                            SettleError ''a'' ConvertFailed] initialState)) = [Error] \<and>
   map errorMessage (images (run [AddFiles [(photo, ''a'', ''blob:preview'')], BeginProcessing ''a'',
                            SettleError ''a'' ConvertFailed] initialState)) = [Some ConvertFailed] \<and>
   find (\<lambda>img. img_id img = ''a'') (images one_image) = Some (hd (images one_image)) \<and>
   processSingleImage_work platform_null_blob (hd (images one_image)) = Inl ConvertFailed \<and>
   map status (images (processSingleImage platform_null_blob ''a'' one_image)) = [Error] \<and>
   map errorMessage (images (processSingleImage platform_null_blob ''a'' one_image)) = [Some ConvertFailed] \<and>
   map status (images (updateSettings ''a'' no_change one_image)) = [Idle] \<and>
   map result (images (updateSettings ''a'' no_change one_image)) = [None]"
  using record_status_invariant
    [of "[AddFiles [(photo, ''a'', ''blob:preview'')], BeginProcessing ''a'',
          SettleError ''a'' ConvertFailed]" "''a''" one_image platform_null_blob no_change]
  by (simp add: run_def example_defs process_defs updateSettings_def merge_settings_def
        merge_key_def record_ok_def)

text \<open>
  Claim C1, as stated, fails. The claim's two "exactly one" conditions say that a result
  is stored exactly when the status is \<open>done\<close> and an error message exactly when the
  status is \<open>error\<close>, that a failure discards an earlier result, and that
  \<open>updateSettings\<close> drops a stale error message. On one record:
  \<^item> a first run fails, the retry succeeds: the record is \<open>done\<close> and still holds the
    error message;
  \<^item> a run on a \<open>done\<close> record marks it \<open>processing\<close> with its result still stored, and
    when that run fails the record is \<open>error\<close> with the earlier result still stored;
  \<^item> \<open>updateSettings\<close> on an \<open>error\<close> record leaves it \<open>idle\<close> with the error message
    still stored.
\<close>

theorem record_status_counterexample:
  "map status (images (processSingleImage platform_ok ''a''
      (processSingleImage platform_null_blob ''a'' one_image))) = [Done] \<and>
   map errorMessage (images (processSingleImage platform_ok ''a''
      (processSingleImage platform_null_blob ''a'' one_image))) = [Some ConvertFailed] \<and>
   map status (images (fst (processSingleImage_begin ''a''
      (processSingleImage platform_ok ''a'' one_image)))) = [Processing] \<and>
   map (\<lambda>img. result img = None) (images (fst (processSingleImage_begin ''a''
      (processSingleImage platform_ok ''a'' one_image)))) = [False] \<and>
   map status (images (processSingleImage platform_null_blob ''a''
      (processSingleImage platform_ok ''a'' one_image))) = [Error] \<and>
   map (\<lambda>img. result img = None) (images (processSingleImage platform_null_blob ''a''
      (processSingleImage platform_ok ''a'' one_image))) = [False] \<and>
   map status (images (updateSettings ''a'' no_change
      (processSingleImage platform_null_blob ''a'' one_image))) = [Idle] \<and>
   map errorMessage (images (updateSettings ''a'' no_change
      (processSingleImage platform_null_blob ''a'' one_image))) = [Some ConvertFailed]"
  by (simp add: example_defs process_defs updateSettings_def merge_settings_def merge_key_def)

section \<open>processSingleImage on an unknown id, on an example\<close>

theorem processSingleImage_unknown_id_witness:
  "''b'' \<notin> img_id ` set (images one_image) \<and>
   processSingleImage_begin ''b'' one_image = (one_image, None) \<and>
   processSingleImage platform_ok ''b'' one_image = one_image"
proof -
  have h: "''b'' \<notin> img_id ` set (images one_image)"
    by (simp add: example_defs)
  show ?thesis
    using h processSingleImage_unknown_id [OF h, of platform_ok] by simp
qed

section \<open>Format and quality\<close>

lemma worker_policy_table:
  "worker_policy m fmt mime ec =
     (if m = Compress then (mime, 92 / 100)
      else (fmt, if ec then (if fmt = ''image/jpeg'' \<or> fmt = ''image/webp'' then 92 / 100
                             else if fmt = ''image/avif'' then 9 / 10 else 1)
                 else 1))"
  by (cases m) (simp_all add: worker_policy_def)

lemma convertImage_blob:
  assumes "convertImage pf f fmt ec = Inr b"
  shows "\<exists>w h n. decode pf f = Loaded w h \<and> b = Encoded w h fmt (convertImage_quality fmt ec) n"
  using assms
  by (auto simp: convertImage_def Let_def split: load_event.splits if_splits option.splits)

lemma store_convert_blob:
  assumes "mode (settings image') = Convert" and "processSingleImage_work pf image' = Inr b"
  shows "\<exists>w h n. b = Encoded w h (format (settings image')) 1 n"
  using assms convertImage_blob [of pf "img_file image'" "format (settings image')" False b]
  by (auto simp: processSingleImage_work_def Let_def convertImage_quality_def)

lemma store_compress_blob:
  assumes "mode (settings image') = Compress" and "processSingleImage_work pf image' = Inr b"
  shows "\<exists>n. b = CompressedFile (img_file image') n"
  using assms
  by (auto simp: processSingleImage_work_def Let_def compressImage_def split: sum.splits)

lemma store_both_blob:
  assumes "mode (settings image') = Both" and "processSingleImage_work pf image' = Inr b"
  shows "\<exists>w h n m.
           (if enableCompression (settings image')
            then b = CompressedBlob (Encoded w h (format (settings image'))
                       (convertImage_quality (format (settings image')) True) n) m
            else b = Encoded w h (format (settings image')) 1 n)"
proof (cases "enableCompression (settings image')")
  case True
  then obtain c where c: "convertImage pf (img_file image') (format (settings image')) True = Inr c"
    and b: "compressImage pf (Inr c) = Inr b"
    using assms by (auto simp: processSingleImage_work_def Let_def split: sum.splits)
  from convertImage_blob [OF c] obtain w h n
    where "c = Encoded w h (format (settings image')) (convertImage_quality (format (settings image')) True) n"
    by blast
  moreover from b obtain m where "b = CompressedBlob c m"
    by (auto simp: compressImage_def split: sum.splits)
  ultimately show ?thesis using True by auto
next
  case False
  then have c: "convertImage pf (img_file image') (format (settings image')) False = Inr b"
    using assms by (auto simp: processSingleImage_work_def Let_def split: sum.splits)
  from convertImage_blob [OF c] show ?thesis using False
    by (auto simp: convertImage_quality_def)
qed

lemma convertImage2_quality:
  assumes "convertImage2 pf f fmt ec ro = Inr b"
  shows "\<exists>w h n.
           b = Encoded w h (if checkFormatSupport pf fmt then fmt else getFallbackFormat fmt)
                 (convertImage_quality (if checkFormatSupport pf fmt then fmt else getFallbackFormat fmt) ec) n \<or>
           b = Encoded w h ''image/png'' 1 n"
  using assms
  by (auto simp: convertImage2_def png_fallback_def Let_def
        split: load_event.splits if_splits option.splits prod.splits)

lemma store2_convert_blob:
  assumes "mode (settings image') = Convert" and "processSingleImage_work2 pf g image' = Inr b"
  shows "\<exists>w h t n. b = Encoded w h t 1 n"
proof -
  from assms have "convertImage2 pf (img_file image') (format (settings image')) False
                     (Some (resize_options g image')) = Inr b"
    by (simp add: processSingleImage_work2_def Let_def)
  from convertImage2_quality [OF this] show ?thesis
    by (auto simp: convertImage_quality_def)
qed

lemma store2_compress_blob:
  assumes "mode (settings image') = Compress" and "processSingleImage_work2 pf g image' = Inr b"
  shows "\<exists>w h t n k. b = CompressedBlob (Encoded w h t 1 n) k"
proof -
  from assms obtain c where
    c: "convertImage2 pf (img_file image') (ftype (img_file image')) False
          (Some (resize_options g image')) = Inr c"
    and b: "compressImage pf (Inr c) = Inr b"
    by (auto simp: processSingleImage_work2_def Let_def split: sum.splits)
  from convertImage2_quality [OF c] obtain w h t n where "c = Encoded w h t 1 n"
    by (auto simp: convertImage_quality_def)
  moreover from b obtain k where "b = CompressedBlob c k"
    by (auto simp: compressImage_def split: sum.splits)
  ultimately show ?thesis by blast
qed

text \<open>
  Claim C2, as amended. The worker's format policy is the total function the claim
  gives: in mode \<open>compress\<close> the original format at quality 0.92 whatever the flag; in
  modes \<open>convert\<close> and \<open>both\<close> the requested format, at quality 1.0 unless the flag is
  set, and then 0.92 for JPEG and WEBP, 0.90 for AVIF, 1.0 for any other format. The
  store's own \<open>processSingleImage\<close> follows that table in mode \<open>both\<close> only. In mode
  \<open>convert\<close> every result is encoded at quality 1.0 whatever the flag (the requested
  format in the first copy). In mode \<open>compress\<close> the first copy's result is the
  compression library's output on the original file, with no canvas encoding, and the
  second copy's is the library's output on a canvas encoding at quality 1.0.
\<close>

theorem format_policy:
  "worker_policy m fmt mime ec =
     (if m = Compress then (mime, 92 / 100)
      else (fmt, if ec then (if fmt = ''image/jpeg'' \<or> fmt = ''image/webp'' then 92 / 100
                             else if fmt = ''image/avif'' then 9 / 10 else 1)
                 else 1)) \<and>
   (processSingleImage_work pf image' = Inr b \<longrightarrow>
      (case mode (settings image') of
         Convert \<Rightarrow> \<exists>w h n. b = Encoded w h (format (settings image')) 1 n
       | Compress \<Rightarrow> \<exists>n. b = CompressedFile (img_file image') n
       | Both \<Rightarrow> \<exists>w h n k.
           (if enableCompression (settings image')
            then b = CompressedBlob (Encoded w h (format (settings image'))
                       (if format (settings image') = ''image/jpeg'' \<or>
                           format (settings image') = ''image/webp'' then 92 / 100
                        else if format (settings image') = ''image/avif'' then 9 / 10 else 1) n) k
            else b = Encoded w h (format (settings image')) 1 n))) \<and>
   (mode (settings image') = Convert \<and> processSingleImage_work2 pf g image' = Inr b2 \<longrightarrow>
      (\<exists>w h t n. b2 = Encoded w h t 1 n)) \<and>
   (mode (settings image') = Compress \<and> processSingleImage_work2 pf g image' = Inr b2 \<longrightarrow>
      (\<exists>w h t n k. b2 = CompressedBlob (Encoded w h t 1 n) k))"
proof (intro conjI impI)
  show "worker_policy m fmt mime ec =
     (if m = Compress then (mime, 92 / 100)
      else (fmt, if ec then (if fmt = ''image/jpeg'' \<or> fmt = ''image/webp'' then 92 / 100
                             else if fmt = ''image/avif'' then 9 / 10 else 1)
                 else 1))"
    by (rule worker_policy_table)
next
  assume b: "processSingleImage_work pf image' = Inr b"
  show "case mode (settings image') of
         Convert \<Rightarrow> \<exists>w h n. b = Encoded w h (format (settings image')) 1 n
       | Compress \<Rightarrow> \<exists>n. b = CompressedFile (img_file image') n
       | Both \<Rightarrow> \<exists>w h n k.
           (if enableCompression (settings image')
            then b = CompressedBlob (Encoded w h (format (settings image'))
                       (if format (settings image') = ''image/jpeg'' \<or>
                           format (settings image') = ''image/webp'' then 92 / 100
                        else if format (settings image') = ''image/avif'' then 9 / 10 else 1) n) k
            else b = Encoded w h (format (settings image')) 1 n)"
  proof (cases "mode (settings image')")
    case Convert
    then show ?thesis using store_convert_blob [OF Convert b] by simp
  next
    case Compress
    then show ?thesis using store_compress_blob [OF Compress b] by simp
  next
    case Both
    have q: "convertImage_quality (format (settings image')) True =
               (if format (settings image') = ''image/jpeg'' \<or>
                   format (settings image') = ''image/webp'' then 92 / 100
                else if format (settings image') = ''image/avif'' then 9 / 10 else 1)"
      by (simp add: convertImage_quality_def)
    show ?thesis using store_both_blob [OF Both b]
      by (simp only: Both ProcessMode.case q)
  qed
next
  assume "mode (settings image') = Convert \<and> processSingleImage_work2 pf g image' = Inr b2"
  then show "\<exists>w h t n. b2 = Encoded w h t 1 n"
    using store2_convert_blob [of image' pf g b2] by blast
next
  assume "mode (settings image') = Compress \<and> processSingleImage_work2 pf g image' = Inr b2"
  then show "\<exists>w h t n k. b2 = CompressedBlob (Encoded w h t 1 n) k"
    using store2_compress_blob [of image' pf g b2] by blast
qed

theorem format_policy_witness:
  "worker_policy Convert ''image/jpeg'' ''image/png'' True = (''image/jpeg'', 92 / 100) \<and>
   worker_policy Compress ''image/jpeg'' ''image/png'' False = (''image/png'', 92 / 100) \<and>
   processSingleImage_work platform_ok (example_image Both ''image/avif'' True 1) =
     Inr (CompressedBlob (Encoded 2000 1000 ''image/avif'' (9 / 10) 1000) 500)"
  using format_policy [of Convert "''image/jpeg''" "''image/png''" True platform_ok
      "example_image Both ''image/avif'' True 1"
      "CompressedBlob (Encoded 2000 1000 ''image/avif'' (9 / 10) 1000) 500"]
    format_policy [of Compress "''image/jpeg''" "''image/png''" False platform_ok
      "example_image Both ''image/avif'' True 1"
      "CompressedBlob (Encoded 2000 1000 ''image/avif'' (9 / 10) 1000) 500"]
  by (simp add: example_defs process_defs)

text \<open>
  Claim C2, as stated, fails on the store's own pipeline. A record in mode \<open>convert\<close>
  with requested format JPEG and the compression flag set is encoded at quality 1.0,
  where the claim gives 0.92; a record in mode \<open>compress\<close> is not encoded by the canvas
  at all, where the claim gives an encoding at quality 0.92.
\<close>

theorem format_policy_counterexample:
  "processSingleImage_work platform_ok (example_image Convert ''image/jpeg'' True 1) =
     Inr (Encoded 2000 1000 ''image/jpeg'' 1 1000) \<and>
   processSingleImage_work platform_ok (example_image Compress ''image/jpeg'' True 1) =
     Inr (CompressedFile photo 500)"
  by (simp add: example_defs process_defs)

section \<open>addFiles\<close>

lemma new_image_fields:
  "img_file (new_image g x) = fst x \<and> img_id (new_image g x) = fst (snd x) \<and>
   previewUrl (new_image g x) = snd (snd x) \<and> status (new_image g x) = Idle \<and>
   result (new_image g x) = None \<and> errorMessage (new_image g x) = None \<and>
   settings (new_image g x) = seed_settings g"
  by (cases x) (simp add: new_image_def)

text \<open>
  Claim C8, as amended. \<open>addFiles\<close> itself keeps the inputs whose MIME type starts with
  \<open>image/\<close> and drops the others. Each input kept yields one new record, appended to
  the collection in input order after the records already there, with status \<open>idle\<close>,
  no result, no error message, and the format, compression flag, mode, aspect-ratio
  flag and scale of the current global settings. The global settings and the flag
  are unchanged.
\<close>

theorem addFiles_appends:
  "(let accepted = filter (\<lambda>(f, i, u). starts_with (ftype f) ''image/'') files;
        added = drop (length (images s)) (images (addFiles files s))
    in take (length (images s)) (images (addFiles files s)) = images s \<and>
       map (\<lambda>img. (img_file img, img_id img, previewUrl img)) added = accepted \<and>
       (\<forall>img\<in>set added.
           status img = Idle \<and> result img = None \<and> errorMessage img = None \<and>
           format (settings img) = format (globalSettings s) \<and>
           enableCompression (settings img) = enableCompression (globalSettings s) \<and>
           mode (settings img) = mode (globalSettings s) \<and>
           maintainAspectRatio (settings img) = maintainAspectRatio (globalSettings s) \<and>
           scale (settings img) = scale (globalSettings s))) \<and>
   globalSettings (addFiles files s) = globalSettings s \<and>
   isProcessing (addFiles files s) = isProcessing s"
proof -
  let ?acc = "filter (\<lambda>(f, i, u). starts_with (ftype f) ''image/'') files"
  have im: "images (addFiles files s) = images s @ map (new_image (globalSettings s)) ?acc"
    by (simp add: addFiles_def)
  have m: "map (\<lambda>img. (img_file img, img_id img, previewUrl img))
             (map (new_image (globalSettings s)) ?acc) = ?acc"
    by (simp add: comp_def new_image_fields)
  have f: "\<forall>img\<in>set (map (new_image (globalSettings s)) ?acc).
           status img = Idle \<and> result img = None \<and> errorMessage img = None \<and>
           settings img = seed_settings (globalSettings s)"
    by (auto simp: new_image_fields)
  show ?thesis
    unfolding Let_def im using m f
    by (simp add: seed_settings_def addFiles_def)
qed

theorem addFiles_appends_witness:
  "images (addFiles [(notes_txt, ''n'', ''blob:n''), (photo, ''a'', ''blob:preview'')] initialState) =
     [\<lparr> img_id = ''a'', img_file = photo, previewUrl = ''blob:preview'', status = Idle,
        errorMessage = None,
        settings = \<lparr> format = ''image/webp'', enableCompression = True, mode = Convert,
                     width = None, height = None, maintainAspectRatio = True, scale = Some 1 \<rparr>,
        result = None \<rparr>]"
  using addFiles_appends [of "[(notes_txt, ''n'', ''blob:n''), (photo, ''a'', ''blob:preview'')]" initialState]
  by (simp add: example_defs)

text \<open>
  Claim C8, as stated, fails in its last part: the registry does filter. A text file
  handed to \<open>addFiles\<close> yields no record.
\<close>

theorem addFiles_counterexample:
  "images (addFiles [(notes_txt, ''n'', ''blob:n'')] initialState) = []"
  by (simp add: example_defs)

section \<open>exportImages\<close>
















section \<open>Planned dimensions\<close>













lemmas resize_defs =
  calculateResizedDimensions_def limit_dimensions_def limit_scale_def maxDimension_def
  math_round_def truthy_def or_else_def convertImage2_def png_fallback_def
  checkFormatSupport_def getFallbackFormat_def processSingleImage_work2_def resize_options_def

lemma floor_rat_numeral: "\<lfloor>(numeral a :: rat) / numeral b\<rfloor> = numeral a div numeral b"
  using floor_divide_of_int_eq [of "numeral a" "numeral b", where ?'a = rat] by simp





section \<open>Encoding failures\<close>

lemma convertImage2_primary_fails:
  assumes "loads_within_30s pf f" and "decode pf f = Loaded iw ih" and "context2d pf"
    and "limit_dimensions (calculateResizedDimensions iw ih ro) = (w, h)"
    and "t = (if checkFormatSupport pf fmt then fmt else getFallbackFormat fmt)"
    and "toBlob pf w h t (convertImage_quality t ec) = None \<or>
         toBlob pf w h t (convertImage_quality t ec) = Some 0"
  shows "convertImage2 pf f fmt ec (Some ro) =
           (case toBlob pf w h ''image/png'' 1 of
              Some k \<Rightarrow> Inr (Encoded w h ''image/png'' 1 k)
            | None \<Rightarrow> Inl ConvertFailedTryOther)"
  using assms
  by (auto simp: convertImage2_def png_fallback_def Let_def)

lemma convertImage_null:
  assumes "decode pf f = Loaded w h" and "context2d pf"
    and "toBlob pf w h fmt (convertImage_quality fmt ec) = None"
  shows "convertImage pf f fmt ec = Inl ConvertFailed"
  using assms by (simp add: convertImage_def)

lemma worker_reject:
  assumes "createImageBitmap wp (imageData m) (mimeType m) = Inr (w, h)"
    and "offscreenContext2d wp"
    and "worker_policy (wtype m) (wformat m) (mimeType m) (wenableCompression m) = (t, q)"
    and "convertToBlob wp w h t q = Inl e"
  shows "worker_onmessage wp m =
           [Progress (wid m) 10, Progress (wid m) 30, Progress (wid m) 50, Progress (wid m) 70,
            Failure (wid m) e]"
  using assms by (simp add: worker_onmessage_def)

text \<open>
  Claim C4, as amended. In the store's second copy, when the image has loaded and the
  canvas has a context, a primary encode that yields \<open>null\<close> or an empty blob is
  followed by one encode of the same canvas to PNG at quality 1.0: its blob is the
  result, and the operation fails only when this second encode yields \<open>null\<close>. The
  \<open>convertImage\<close> of the first copy has no fallback: a \<open>null\<close> encode fails the
  operation. The worker has none either: a rejected \<open>convertToBlob\<close> ends the request
  with an error response.
\<close>

theorem encode_fallback:
  "(loads_within_30s pf f \<and> decode pf f = Loaded iw ih \<and> context2d pf \<and>
    limit_dimensions (calculateResizedDimensions iw ih ro) = (w, h) \<and>
    t = (if checkFormatSupport pf fmt then fmt else getFallbackFormat fmt) \<and>
    (toBlob pf w h t (convertImage_quality t ec) = None \<or>
     toBlob pf w h t (convertImage_quality t ec) = Some 0) \<longrightarrow>
    convertImage2 pf f fmt ec (Some ro) =
      (case toBlob pf w h ''image/png'' 1 of
         Some k \<Rightarrow> Inr (Encoded w h ''image/png'' 1 k)
       | None \<Rightarrow> Inl ConvertFailedTryOther)) \<and>
   (decode pf f = Loaded iw ih \<and> context2d pf \<and>
    toBlob pf iw ih fmt (convertImage_quality fmt ec) = None \<longrightarrow>
    convertImage pf f fmt ec = Inl ConvertFailed) \<and>
   (createImageBitmap wp (imageData m) (mimeType m) = Inr (bw, bh) \<and> offscreenContext2d wp \<and>
    worker_policy (wtype m) (wformat m) (mimeType m) (wenableCompression m) = (wt, wq) \<and>
    convertToBlob wp bw bh wt wq = Inl e \<longrightarrow>
    worker_onmessage wp m =
      [Progress (wid m) 10, Progress (wid m) 30, Progress (wid m) 50, Progress (wid m) 70,
       Failure (wid m) e])"
  using convertImage2_primary_fails [of pf f iw ih ro w h t fmt ec]
    convertImage_null [of pf f iw ih fmt ec]
    worker_reject [of wp m bw bh wt wq e]
  by blast

theorem encode_fallback_witness:
  "toBlob platform_no_webp 2000 1000 ''image/webp'' (92 / 100) = None \<and>
   convertImage2 platform_no_webp photo ''image/webp'' True (Some (scale_by 1)) =
     Inr (Encoded 2000 1000 ''image/png'' 1 1000) \<and>
   convertImage platform_no_webp photo ''image/webp'' True = Inl ConvertFailed \<and>
   worker_onmessage worker_no_avif (request Convert ''image/avif'' False) =
     [Progress ''a'' 10, Progress ''a'' 30, Progress ''a'' 50, Progress ''a'' 70,
      Failure ''a'' (ThrownError ''unsupported type'')]"
  using encode_fallback [of platform_no_webp photo 2000 1000 "scale_by 1" 2000 1000
      "''image/webp''" "''image/webp''" True worker_no_avif "request Convert ''image/avif'' False"
      8000 6000 "''image/avif''" 1 "ThrownError ''unsupported type''"]
  by (simp add: example_defs process_defs resize_defs worker_onmessage_def worker_policy_def
        floor_rat_numeral)

text \<open>
  Claim C4, as stated, fails. On a platform that cannot encode WEBP but can encode PNG,
  the first copy's \<open>convertImage\<close> fails the operation and does not try PNG; the worker
  reports the encoder's error without a retry. In the second copy the retry is not
  unconditional success: when the PNG encode yields \<open>null\<close> too, the operation fails.
\<close>

theorem encode_fallback_counterexample:
  "toBlob platform_no_webp 2000 1000 ''image/png'' 1 = Some 1000 \<and>
   processSingleImage_work platform_no_webp (example_image Convert ''image/webp'' False 1) =
     Inl ConvertFailed \<and>
   last (worker_onmessage worker_no_avif (request Convert ''image/avif'' False)) =
     Failure ''a'' (ThrownError ''unsupported type'') \<and>
   convertImage2 platform_null_blob photo ''image/webp'' False (Some (scale_by 1)) =
     Inl ConvertFailedTryOther"
  by (simp add: example_defs process_defs resize_defs worker_onmessage_def worker_policy_def
        floor_rat_numeral)

section \<open>The AVIF probe\<close>

lemma avif_fallback:
  assumes "\<not> checkFormatSupport pf ''image/avif''"
  shows "convertImage2 pf f ''image/avif'' ec ro = convertImage2 pf f ''image/webp'' ec ro"
  using assms by (simp add: convertImage2_def getFallbackFormat_def checkFormatSupport_def)

lemma avif_probe:
  "checkFormatSupport pf ''image/avif'' = (\<exists>n. 0 < n \<and> toBlob pf 1 1 ''image/avif'' (1 / 2) = Some n)"
  by (auto simp: checkFormatSupport_def split: option.splits)

lemma set_status_settings: "map settings (images (set_status i st s)) = map settings (images s)"
  by (simp add: set_status_def comp_def if_distrib [of settings] cong: if_cong)

lemma set_done_settings: "map settings (images (set_done i r s)) = map settings (images s)"
  by (simp add: set_done_def comp_def if_distrib [of settings] cong: if_cong)

lemma set_error_settings: "map settings (images (set_error i e s)) = map settings (images s)"
  by (simp add: set_error_def comp_def if_distrib [of settings] cong: if_cong)

lemma settle_settings:
  "map settings (images (processSingleImage_settle pf i image' outcome s)) = map settings (images s)"
  by (cases outcome) (simp_all add: processSingleImage_settle_def set_done_settings set_error_settings)

lemma begin_settings:
  "map settings (images (fst (processSingleImage_begin i s))) = map settings (images s)"
  by (simp add: processSingleImage_begin_def set_status_settings split: option.splits)

lemma processSingleImage2_settings:
  "map settings (images (processSingleImage2 pf i s)) = map settings (images s)"
proof (cases "processSingleImage_begin i s")
  case (Pair s' r)
  then have s': "map settings (images s') = map settings (images s)"
    using begin_settings [of i s] by simp
  show ?thesis
  proof (cases r)
    case None
    then show ?thesis using Pair s' by (simp add: processSingleImage2_def)
  next
    case (Some image')
    then show ?thesis using Pair s' by (simp add: processSingleImage2_def settle_settings)
  qed
qed

lemma convertImage_avif_direct:
  assumes "decode pf f = Loaded w h" and "context2d pf"
  shows "convertImage pf f ''image/avif'' ec =
           (case toBlob pf w h ''image/avif'' (if ec then 9 / 10 else 1) of
              None \<Rightarrow> Inl ConvertFailed
            | Some n \<Rightarrow> Inr (Encoded w h ''image/avif'' (if ec then 9 / 10 else 1) n))"
  using assms by (simp add: convertImage_def convertImage_quality_def Let_def)

text \<open>
  Claim C5, as amended. In the store's second copy every conversion probes first when
  the requested format is AVIF: the runtime supports AVIF exactly when encoding a 1 by 1
  canvas to AVIF gives a non-empty blob. When the probe fails the conversion is the
  conversion to WEBP, and the settings stored in the records (the requested AVIF
  among them) are unchanged by the run. The first copy's \<open>convertImage\<close> and the worker
  do not probe: they hand the AVIF request to the encoder as it is.
\<close>

theorem avif_capability:
  "checkFormatSupport pf ''image/avif'' =
     (\<exists>n. 0 < n \<and> toBlob pf 1 1 ''image/avif'' (1 / 2) = Some n) \<and>
   (\<not> checkFormatSupport pf ''image/avif'' \<longrightarrow>
      convertImage2 pf f ''image/avif'' ec ro = convertImage2 pf f ''image/webp'' ec ro) \<and>
   map settings (images (processSingleImage2 pf i s)) = map settings (images s) \<and>
   (decode pf f = Loaded w h \<and> context2d pf \<longrightarrow>
      convertImage pf f ''image/avif'' ec =
        (case toBlob pf w h ''image/avif'' (if ec then 9 / 10 else 1) of
           None \<Rightarrow> Inl ConvertFailed
         | Some n \<Rightarrow> Inr (Encoded w h ''image/avif'' (if ec then 9 / 10 else 1) n))) \<and>
   fst (worker_policy Convert ''image/avif'' mime ec) = ''image/avif'' \<and>
   fst (worker_policy Both ''image/avif'' mime ec) = ''image/avif''"
  using avif_probe [of pf] avif_fallback [of pf f ec ro] processSingleImage2_settings [of pf i s]
    convertImage_avif_direct [of pf f w h ec]
  by (simp add: worker_policy_def)

theorem avif_capability_witness:
  "\<not> checkFormatSupport platform_no_avif ''image/avif'' \<and>
   map (format \<circ> settings) (images one_avif) = [''image/avif''] \<and>
   map (format \<circ> settings) (images (processSingleImage2 platform_no_avif ''a'' one_avif)) =
     [''image/avif''] \<and>
   map (map_option blob \<circ> result) (images (processSingleImage2 platform_no_avif ''a'' one_avif)) =
     [Some (Encoded 2000 1000 ''image/webp'' 1 1000)]"
  using avif_capability [of platform_no_avif photo False "Some (scale_by 1)" "''a''" one_avif
      2000 1000 "''image/png''"]
  by (simp add: example_defs process_defs resize_defs processSingleImage2_def updateSettings_def
        merge_settings_def merge_key_def floor_rat_numeral)

text \<open>
  Claim C5, as stated, fails. On a platform that cannot encode AVIF, the first copy of
  the store asks the encoder for AVIF and fails, with no WEBP in its place; the worker
  asks its encoder for AVIF too and reports the error.
\<close>

theorem avif_capability_counterexample:
  "toBlob platform_no_avif 1 1 ''image/avif'' (1 / 2) = None \<and>
   map (map_option blob \<circ> result) (images (processSingleImage platform_no_avif ''a'' one_avif)) =
     [None] \<and>
   map errorMessage (images (processSingleImage platform_no_avif ''a'' one_avif)) =
     [Some ConvertFailed] \<and>
   worker_onmessage worker_no_avif (request Convert ''image/avif'' True) =
     [Progress ''a'' 10, Progress ''a'' 30, Progress ''a'' 50, Progress ''a'' 70,
      Failure ''a'' (ThrownError ''unsupported type'')]"
  by (simp add: example_defs process_defs updateSettings_def merge_settings_def merge_key_def
        worker_onmessage_def worker_policy_def)

section \<open>Batch runs\<close>

lemma find_by_id:
  "distinct (map img_id xs) \<Longrightarrow> img \<in> set xs \<Longrightarrow> find (\<lambda>r. img_id r = img_id img) xs = Some img"
  by (induction xs) (auto simp: rev_image_eqI)

lemma find_map_other:
  assumes "\<And>r. img_id (f r) = img_id r" and "\<And>r. img_id r = j \<Longrightarrow> f r = r"
  shows "find (\<lambda>r. img_id r = j) (map f xs) = find (\<lambda>r. img_id r = j) xs"
  using assms by (induction xs) auto

lemma find_set_status_other:
  "i \<noteq> j \<Longrightarrow> find (\<lambda>r. img_id r = j) (images (set_status i st s)) = find (\<lambda>r. img_id r = j) (images s)"
  unfolding set_status_def by (simp, rule find_map_other) auto

lemma ids_set_status: "map img_id (images (set_status i st s)) = map img_id (images s)"
  by (simp add: set_status_def comp_def if_distrib [of img_id] cong: if_cong)

lemma launch_found:
  assumes "find (\<lambda>r. img_id r = i) (images s) = Some image'"
  shows "launch (s, ops) i = (set_status i Processing s, ops @ [(i, image')])"
  using assms by (simp add: launch_def processSingleImage_begin_def)

lemma find_Some_iff_mem: "i \<in> img_id ` set xs \<Longrightarrow> \<exists>r. find (\<lambda>r. img_id r = i) xs = Some r"
  by (induction xs) auto

lemma foldl_launch:
  assumes "distinct is" and "set is \<subseteq> img_id ` set (images s)"
  shows "foldl launch (s, ops) is =
           (s\<lparr>images := map (\<lambda>img. if img_id img \<in> set is then img\<lparr>status := Processing\<rparr> else img)
                          (images s)\<rparr>,
            ops @ map (\<lambda>i. (i, the (find (\<lambda>r. img_id r = i) (images s)))) is)"
  using assms
proof (induction "is" arbitrary: s ops)
  case Nil
  then show ?case by simp
next
  case (Cons i "is")
  from Cons.prems obtain image' where f: "find (\<lambda>r. img_id r = i) (images s) = Some image'"
    using find_Some_iff_mem [of i "images s"] by auto
  let ?s = "set_status i Processing s"
  have d: "distinct is" and ni: "i \<notin> set is" using Cons.prems by simp_all
  have sub: "set is \<subseteq> img_id ` set (images ?s)"
  proof -
    have "img_id ` set (images ?s) = set (map img_id (images ?s))" by simp
    also have "\<dots> = set (map img_id (images s))" by (simp only: ids_set_status)
    finally show ?thesis using Cons.prems by simp
  qed
  have same: "\<forall>j\<in>set is. find (\<lambda>r. img_id r = j) (images ?s) = find (\<lambda>r. img_id r = j) (images s)"
    using ni by (auto intro: find_set_status_other)
  have m: "map (\<lambda>j. (j, the (find (\<lambda>r. img_id r = j) (images ?s)))) is =
           map (\<lambda>j. (j, the (find (\<lambda>r. img_id r = j) (images s)))) is"
    using same by simp
  have im: "map (\<lambda>img. if img_id img \<in> set is then img\<lparr>status := Processing\<rparr> else img) (images ?s) =
            map (\<lambda>img. if img_id img \<in> set (i # is) then img\<lparr>status := Processing\<rparr> else img) (images s)"
    by (simp add: set_status_def comp_def)
  have "foldl launch (s, ops) (i # is) = foldl launch (?s, ops @ [(i, image')]) is"
    by (simp add: launch_found [OF f])
  also have "\<dots> = (?s\<lparr>images := map (\<lambda>img. if img_id img \<in> set is then img\<lparr>status := Processing\<rparr> else img)
                          (images ?s)\<rparr>,
            (ops @ [(i, image')]) @ map (\<lambda>j. (j, the (find (\<lambda>r. img_id r = j) (images ?s)))) is)"
    by (rule Cons.IH [OF d sub])
  also have "\<dots> = (s\<lparr>images := map (\<lambda>img. if img_id img \<in> set (i # is) then img\<lparr>status := Processing\<rparr> else img)
                          (images s)\<rparr>,
            ops @ map (\<lambda>j. (j, the (find (\<lambda>r. img_id r = j) (images s)))) (i # is))"
    unfolding im m by (simp add: f set_status_def)
  finally show ?case .
qed


lemma processImages_begin_eq:
  assumes "distinct (map img_id (images s))"
  shows "processImages_begin s =
           (s\<lparr>isProcessing := True,
              images := map (\<lambda>img. if status img \<noteq> Done then img\<lparr>status := Processing\<rparr> else img)
                          (images s)\<rparr>,
            map (\<lambda>img. (img_id img, img)) (filter (\<lambda>img. status img \<noteq> Done) (images s)))"
proof -
  let ?pending = "filter (\<lambda>img. status img \<noteq> Done) (images s)"
  let ?is = "map img_id ?pending"
  let ?s1 = "s\<lparr>isProcessing := True\<rparr>"
  have d: "distinct ?is" using assms by (rule distinct_map_filter)
  have sub: "set ?is \<subseteq> img_id ` set (images ?s1)" by auto
  have inj: "inj_on img_id (set (images s))" using assms by (simp add: distinct_map)
  have ops: "map (\<lambda>i. (i, the (find (\<lambda>r. img_id r = i) (images ?s1)))) ?is =
             map (\<lambda>img. (img_id img, img)) ?pending"
    using assms by (simp add: find_by_id)
  have mem: "\<And>img. img \<in> set (images s) \<Longrightarrow> (img_id img \<in> set ?is) = (status img \<noteq> Done)"
  proof -
    fix img assume i: "img \<in> set (images s)"
    show "(img_id img \<in> set ?is) = (status img \<noteq> Done)"
    proof
      assume "img_id img \<in> set ?is"
      then obtain r where r: "r \<in> set (images s)" "status r \<noteq> Done" "img_id r = img_id img"
        by auto
      then have "r = img" using inj i by (auto dest: inj_onD)
      then show "status img \<noteq> Done" using r by simp
    next
      assume "status img \<noteq> Done"
      then show "img_id img \<in> set ?is" using i by auto
    qed
  qed
  have im: "map (\<lambda>img. if img_id img \<in> set ?is then img\<lparr>status := Processing\<rparr> else img) (images ?s1) =
            map (\<lambda>img. if status img \<noteq> Done then img\<lparr>status := Processing\<rparr> else img) (images s)"
    using mem by (simp cong: map_cong)
  have "processImages_begin s = foldl launch (?s1, []) ?is"
    by (simp add: processImages_begin_def)
  also have "\<dots> = (?s1\<lparr>images := map (\<lambda>img. if img_id img \<in> set ?is then img\<lparr>status := Processing\<rparr> else img)
                          (images ?s1)\<rparr>,
            [] @ map (\<lambda>i. (i, the (find (\<lambda>r. img_id r = i) (images ?s1)))) ?is)"
    by (rule foldl_launch [OF d sub])
  finally show ?thesis unfolding im ops by simp
qed

text \<open>The launched ids need no assumption on the collection.\<close>

lemma foldl_launch_ids:
  assumes "set is \<subseteq> img_id ` set (images s)"
  shows "map fst (snd (foldl launch (s, ops) is)) = map fst ops @ is \<and>
         isProcessing (fst (foldl launch (s, ops) is)) = isProcessing s"
  using assms
proof (induction "is" arbitrary: s ops)
  case Nil
  then show ?case by simp
next
  case (Cons i "is")
  from Cons.prems obtain image' where f: "find (\<lambda>r. img_id r = i) (images s) = Some image'"
    using find_Some_iff_mem [of i "images s"] by auto
  let ?s = "set_status i Processing s"
  have sub: "set is \<subseteq> img_id ` set (images ?s)"
  proof -
    have "img_id ` set (images ?s) = set (map img_id (images ?s))" by simp
    also have "\<dots> = set (map img_id (images s))" by (simp only: ids_set_status)
    finally show ?thesis using Cons.prems by simp
  qed
  have fl: "isProcessing ?s = isProcessing s" by (simp add: set_status_def)
  show ?case
    using Cons.IH [OF sub, of "ops @ [(i, image')]"] fl
    by (simp add: launch_found [OF f])
qed

lemma processImages_begin_ids:
  "map fst (snd (processImages_begin s)) = map img_id (filter (\<lambda>img. status img \<noteq> Done) (images s)) \<and>
   isProcessing (fst (processImages_begin s))"
proof -
  have sub: "set (map img_id (filter (\<lambda>img. status img \<noteq> Done) (images s))) \<subseteq>
             img_id ` set (images (s\<lparr>isProcessing := True\<rparr>))"
    by auto
  show ?thesis
    using foldl_launch_ids [OF sub, of "[]"] by (simp add: processImages_begin_def)
qed


lemma settle_images: "images (settle pf s op) = map (settle_record pf op) (images s)"
  by (cases op)
     (simp add: settle_def settle_record_def processSingleImage_settle_def set_done_def set_error_def
        split: sum.splits)

lemma settle_flag: "isProcessing (settle pf s op) = isProcessing s"
  by (cases op)
     (simp add: settle_def processSingleImage_settle_def set_done_def set_error_def
        split: sum.splits)

lemma foldl_settle_flag: "isProcessing (foldl (settle pf) s xs) = isProcessing s"
  by (induction xs arbitrary: s) (simp_all add: settle_flag)

lemma foldl_settle_images:
  "images (foldl (settle pf) s xs) =
     map (\<lambda>r. foldl (\<lambda>r' op. settle_record pf op r') r xs) (images s)"
  by (induction xs arbitrary: s) (simp_all add: settle_images comp_def)

lemma settle_record_id: "img_id (settle_record pf op r) = img_id r"
  by (cases op) (simp add: settle_record_def split: sum.splits)

lemma settle_record_other: "fst op \<noteq> img_id r \<Longrightarrow> settle_record pf op r = r"
  by (cases op) (auto simp: settle_record_def)

lemma foldl_settle_record_none:
  "\<forall>op\<in>set xs. fst op \<noteq> img_id r \<Longrightarrow> foldl (\<lambda>r' op. settle_record pf op r') r xs = r"
  by (induction xs) (simp_all add: settle_record_other)

lemma foldl_settle_record_one:
  assumes "distinct (map fst xs)" and "op \<in> set xs" and "fst op = img_id r"
  shows "foldl (\<lambda>r' op. settle_record pf op r') r xs = settle_record pf op r"
  using assms
proof (induction xs arbitrary: r)
  case Nil
  then show ?case by simp
next
  case (Cons a xs)
  show ?case
  proof (cases "a = op")
    case True
    have "fst op \<notin> fst ` set xs" using Cons.prems(1) True by simp
    then have "\<forall>b\<in>set xs. fst b \<noteq> img_id (settle_record pf op r)"
      using Cons.prems(3) by (force simp: settle_record_id image_iff)
    then show ?thesis using True by (simp add: foldl_settle_record_none)
  next
    case False
    then have m: "op \<in> set xs" using Cons.prems by simp
    then have "fst a \<noteq> fst op" using Cons.prems(1) by (auto simp: rev_image_eqI)
    then have "settle_record pf a r = r" using Cons.prems(3) by (simp add: settle_record_other)
    moreover have "distinct (map fst xs)" using Cons.prems(1) by simp
    ultimately show ?thesis using Cons.IH [OF _ m Cons.prems(3)] by simp
  qed
qed

lemma settle_record_own:
  "settle_record pf (img_id img, img) (img\<lparr>status := Processing\<rparr>) = settled pf img"
  by (simp add: settle_record_def settled_def split: sum.splits)


lemma batch_final:
  assumes d: "distinct (map img_id (images s))"
    and xs: "set xs = set (map (\<lambda>img. (img_id img, img)) (filter (\<lambda>img. status img \<noteq> Done) (images s)))"
    and len: "length xs = length (filter (\<lambda>img. status img \<noteq> Done) (images s))"
    and s0: "images s0 = map (\<lambda>img. if status img \<noteq> Done then img\<lparr>status := Processing\<rparr> else img) (images s)"
  shows "images (foldl (settle pf) s0 xs) =
           map (\<lambda>img. if status img \<noteq> Done then settled pf img else img) (images s)"
proof -
  let ?pending = "filter (\<lambda>img. status img \<noteq> Done) (images s)"
  have inj: "inj_on img_id (set (images s))" using d by (simp add: distinct_map)
  have dp: "distinct (map img_id ?pending)" using d by (rule distinct_map_filter)
  have "set (map fst xs) = set (map img_id ?pending)"
    using xs by (simp add: image_image)
  then have "card (set (map fst xs)) = card (set (map img_id ?pending))" by simp
  also have "\<dots> = length (map img_id ?pending)" using dp by (rule distinct_card)
  also have "\<dots> = length (map fst xs)" using len by simp
  finally have dx: "distinct (map fst xs)" by (rule card_distinct)
  have each: "foldl (\<lambda>r' op. settle_record pf op r') (if status img \<noteq> Done then img\<lparr>status := Processing\<rparr> else img) xs =
              (if status img \<noteq> Done then settled pf img else img)"
    if i: "img \<in> set (images s)" for img
  proof (cases "status img \<noteq> Done")
    case True
    have m: "(img_id img, img) \<in> set xs" using i True xs by simp
    have "foldl (\<lambda>r' op. settle_record pf op r') (img\<lparr>status := Processing\<rparr>) xs =
            settle_record pf (img_id img, img) (img\<lparr>status := Processing\<rparr>)"
      by (rule foldl_settle_record_one [OF dx m]) simp
    then show ?thesis using True by (simp add: settle_record_own)
  next
    case False
    have "\<forall>op\<in>set xs. fst op \<noteq> img_id img"
    proof
      fix op assume "op \<in> set xs"
      then obtain r where r: "r \<in> set (images s)" "status r \<noteq> Done" "op = (img_id r, r)"
        using xs by auto
      show "fst op \<noteq> img_id img"
      proof
        assume "fst op = img_id img"
        then have "r = img" using r i inj by (auto dest: inj_onD)
        then show False using r False by simp
      qed
    qed
    then show ?thesis using False by (simp add: foldl_settle_record_none)
  qed
  show ?thesis
    unfolding foldl_settle_images s0 using each by (simp add: comp_def cong: map_cong)
qed

lemma step_flag:
  assumes "\<forall>b. a \<noteq> SetIsProcessing b"
  shows "isProcessing (step a s) = isProcessing s"
proof (cases a)
  case (SetIsProcessing b)
  with assms show ?thesis by blast
qed (simp_all add: addFiles_def removeImage_def updateSettings_def updateGlobalSettings_def
        applyGlobalSettings_def processSingleImage_begin_def set_status_def set_done_def
        set_error_def clearAll_def Let_def split: option.splits)

lemma distinct_ids_batch:
  assumes d: "distinct (map img_id (images s))"
  shows "snd (processImages_begin s) =
           map (\<lambda>img. (img_id img, img)) (filter (\<lambda>img. status img \<noteq> Done) (images s)) \<and>
         images (fst (processImages_begin s)) =
           map (\<lambda>img. if status img \<noteq> Done then img\<lparr>status := Processing\<rparr> else img) (images s) \<and>
         (\<forall>order. set (order (snd (processImages_begin s))) = set (snd (processImages_begin s)) \<and>
                   length (order (snd (processImages_begin s))) = length (snd (processImages_begin s)) \<longrightarrow>
            \<not> isProcessing (processImages pf order s) \<and>
            images (processImages pf order s) =
              map (\<lambda>img. if status img \<noteq> Done then settled pf img else img) (images s))"
proof (intro conjI allI impI)
  let ?pending = "filter (\<lambda>img. status img \<noteq> Done) (images s)"
  note b = processImages_begin_eq [OF d]
  show ops: "snd (processImages_begin s) = map (\<lambda>img. (img_id img, img)) ?pending"
    by (simp add: b)
  show im: "images (fst (processImages_begin s)) =
           map (\<lambda>img. if status img \<noteq> Done then img\<lparr>status := Processing\<rparr> else img) (images s)"
    by (simp add: b)
  fix order
  assume h: "set (order (snd (processImages_begin s))) = set (snd (processImages_begin s)) \<and>
             length (order (snd (processImages_begin s))) = length (snd (processImages_begin s))"
  have p: "processImages pf order s =
             processImages_end (foldl (settle pf) (fst (processImages_begin s))
               (order (snd (processImages_begin s))))"
    by (simp add: processImages_def split: prod.splits)
  show "\<not> isProcessing (processImages pf order s)"
    by (simp add: p processImages_end_def)
  have "images (foldl (settle pf) (fst (processImages_begin s)) (order (snd (processImages_begin s)))) =
          map (\<lambda>img. if status img \<noteq> Done then settled pf img else img) (images s)"
    using h by (intro batch_final [OF d _ _ im]) (simp_all add: ops)
  then show "images (processImages pf order s) =
              map (\<lambda>img. if status img \<noteq> Done then settled pf img else img) (images s)"
    by (simp add: p processImages_end_def)
qed


lemmas batch_defs =
  processImages_def processImages_begin_def processImages_end_def launch_def settle_def

text \<open>
  Claim C6, as amended. A batch run launches \<open>processSingleImage\<close> for exactly the ids of
  the records whose status is not \<open>done\<close>, in order, and sets \<open>isProcessing\<close>; the flag
  stays set however many operations settle, no store action other than the two \<open>set\<close>
  calls of \<open>processImages\<close> changes it, and it is clear in the initial state. When the
  ids of the collection are pairwise different: the operations launched are exactly
  the records not \<open>done\<close>, each read as it was; all of them are marked \<open>processing\<close>
  before any has settled; and in whatever order they settle, once all have settled
  and no other batch run has overlapped this one, the flag is clear and every record
  that was not \<open>done\<close> carries the outcome of its own work alone (\<open>done\<close> with its
  result, or \<open>error\<close> with its message), the others being untouched.
\<close>

theorem batch_run:
  "map fst (snd (processImages_begin s)) =
     map img_id (filter (\<lambda>img. status img \<noteq> Done) (images s)) \<and>
   isProcessing (fst (processImages_begin s)) \<and>
   (\<forall>xs. isProcessing (foldl (settle pf) (fst (processImages_begin s)) xs)) \<and>
   (\<forall>a. (\<forall>b. a \<noteq> SetIsProcessing b) \<longrightarrow> isProcessing (step a s) = isProcessing s) \<and>
   \<not> isProcessing initialState \<and>
   (distinct (map img_id (images s)) \<longrightarrow>
      snd (processImages_begin s) =
        map (\<lambda>img. (img_id img, img)) (filter (\<lambda>img. status img \<noteq> Done) (images s)) \<and>
      images (fst (processImages_begin s)) =
        map (\<lambda>img. if status img \<noteq> Done then img\<lparr>status := Processing\<rparr> else img) (images s) \<and>
      (\<forall>order. set (order (snd (processImages_begin s))) = set (snd (processImages_begin s)) \<and>
                length (order (snd (processImages_begin s))) = length (snd (processImages_begin s)) \<longrightarrow>
         \<not> isProcessing (processImages pf order s) \<and>
         images (processImages pf order s) =
           map (\<lambda>img. if status img \<noteq> Done then settled pf img else img) (images s)))"
proof (intro conjI)
  show "map fst (snd (processImages_begin s)) =
          map img_id (filter (\<lambda>img. status img \<noteq> Done) (images s))"
    using processImages_begin_ids [of s] by simp
  show f: "isProcessing (fst (processImages_begin s))"
    using processImages_begin_ids [of s] by simp
  show "\<forall>xs. isProcessing (foldl (settle pf) (fst (processImages_begin s)) xs)"
    using f by (simp add: foldl_settle_flag)
  show "\<forall>a. (\<forall>b. a \<noteq> SetIsProcessing b) \<longrightarrow> isProcessing (step a s) = isProcessing s"
    using step_flag by blast
  show "\<not> isProcessing initialState"
    by (simp add: initialState_def)
  show "distinct (map img_id (images s)) \<longrightarrow>
      snd (processImages_begin s) =
        map (\<lambda>img. (img_id img, img)) (filter (\<lambda>img. status img \<noteq> Done) (images s)) \<and>
      images (fst (processImages_begin s)) =
        map (\<lambda>img. if status img \<noteq> Done then img\<lparr>status := Processing\<rparr> else img) (images s) \<and>
      (\<forall>order. set (order (snd (processImages_begin s))) = set (snd (processImages_begin s)) \<and>
                length (order (snd (processImages_begin s))) = length (snd (processImages_begin s)) \<longrightarrow>
         \<not> isProcessing (processImages pf order s) \<and>
         images (processImages pf order s) =
           map (\<lambda>img. if status img \<noteq> Done then settled pf img else img) (images s))"
    using distinct_ids_batch [of s pf] by blast
qed

theorem batch_run_witness:
  "distinct (map img_id (images two_idle)) \<and>
   map fst (snd (processImages_begin two_idle)) = [''a'', ''b''] \<and>
   map status (images (fst (processImages_begin two_idle))) = [Processing, Processing] \<and>
   isProcessing (fst (processImages_begin two_idle)) \<and>
   map status (images (processImages platform_jpeg_fails rev two_idle)) = [Done, Error] \<and>
   map errorMessage (images (processImages platform_jpeg_fails rev two_idle)) =
     [None, Some ImageLoadFailed] \<and>
   \<not> isProcessing (processImages platform_jpeg_fails rev two_idle)"
  using batch_run [of two_idle platform_jpeg_fails]
  by (simp add: example_defs process_defs batch_defs)

text \<open>
  Claim C6, as stated, fails when batch runs overlap. A second \<open>processImages\<close> call
  made while the first run's operation is in flight launches an operation of its own
  for the same record (its status is \<open>processing\<close>, not \<open>done\<close>). When the first run's
  operation has settled, the first run clears the flag, and the flag is clear while
  the second run's operation has not settled.
\<close>

theorem batch_run_counterexample:
  "map fst (snd (processImages_begin one_image)) = [''a''] \<and>
   map fst (snd (processImages_begin (fst (processImages_begin one_image)))) = [''a''] \<and>
   isProcessing (fst (processImages_begin (fst (processImages_begin one_image)))) \<and>
   \<not> isProcessing
       (processImages_end
          (foldl (settle platform_ok) (fst (processImages_begin (fst (processImages_begin one_image))))
             (snd (processImages_begin one_image))))"
  by (simp add: example_defs process_defs batch_defs)

end
